theory Spec2Isabelle
  imports Main "HOL-Library.Word"
begin

unbundle bit_operations_syntax

section \<open>Colour model of src/tui/tui.go\<close>

text \<open>
  The source file holds two versions of the package, one after the other. This theory
  models the first, the one with \<^verbatim>\<open>KeyName\<close> and the \<^verbatim>\<open>Selected\<close> slots of the theme.

  \<^verbatim>\<open>type Color int32\<close>: a 32-bit two's complement integer. The sentinels are negative,
  the named palette colours start at 0.
\<close>

type_synonym Color = "32 word"

definition colUndefined :: Color where
  "colUndefined = - 2"

definition colDefault :: Color where
  "colDefault = - 1"

definition colBlack :: Color where "colBlack = 0"
definition colRed :: Color where "colRed = 1"
definition colGreen :: Color where "colGreen = 2"
definition colYellow :: Color where "colYellow = 3"
definition colBlue :: Color where "colBlue = 4"
definition colMagenta :: Color where "colMagenta = 5"
definition colCyan :: Color where "colCyan = 6"
definition colWhite :: Color where "colWhite = 7"

text \<open>
  The declaration of \<^verbatim>\<open>Attr\<close>, of its constants \<^verbatim>\<open>AttrUndefined\<close>, \<^verbatim>\<open>AttrRegular\<close>,
  \<^verbatim>\<open>Reverse\<close>, \<^verbatim>\<open>Underline\<close> and of the method \<^verbatim>\<open>Attr.Merge\<close> belong to the terminal
  back ends and are not part of tui.go. An attribute is a 32-bit mask here; every
  function below that reads one of the missing constants or calls \<^verbatim>\<open>Attr.Merge\<close> takes
  it as its leading argument, under the name the source uses.
\<close>

type_synonym Attr = "32 word"

record ColorAttr =
  Color :: Color
  Attr :: Attr
  BackgroundColor :: Color

definition NewColorAttr :: "Attr \<Rightarrow> ColorAttr" where
  "NewColorAttr AttrUndefined =
     \<lparr>Color = colUndefined, Attr = AttrUndefined, BackgroundColor = colUndefined\<rparr>"

record ColorPair =
  fg :: Color
  bg :: Color
  attr :: Attr

definition NewColorPair :: "Color \<Rightarrow> Color \<Rightarrow> Attr \<Rightarrow> ColorPair" where
  "NewColorPair f b a = \<lparr>fg = f, bg = b, attr = a\<rparr>"

text \<open>
  \<^verbatim>\<open>p.attr&Reverse == 0 && p.bg != colDefault || p.attr&Reverse > 0 && p.fg != colDefault\<close>;
  the comparison with 0 is the signed one of Go.
\<close>

definition HasBg :: "Attr \<Rightarrow> ColorPair \<Rightarrow> bool" where
  "HasBg Reverse p \<longleftrightarrow>
     (attr p AND Reverse = 0 \<and> bg p \<noteq> colDefault) \<or>
     (0 <s attr p AND Reverse \<and> fg p \<noteq> colDefault)"

text \<open>
  \<^verbatim>\<open>func (p ColorPair) merge(other ColorPair, except Color)\<close>; \<open>Attr_Merge\<close> stands for
  the method \<^verbatim>\<open>Attr.Merge\<close>.
\<close>

definition merge :: "(Attr \<Rightarrow> Attr \<Rightarrow> Attr) \<Rightarrow> ColorPair \<Rightarrow> ColorPair \<Rightarrow> Color \<Rightarrow> ColorPair" where
  "merge Attr_Merge p other except =
     (let dup = p;
          dup = dup\<lparr>attr := Attr_Merge (attr dup) (attr other)\<rparr>;
          dup = (if fg other \<noteq> except then dup\<lparr>fg := fg other\<rparr> else dup);
          dup = (if bg other \<noteq> except then dup\<lparr>bg := bg other\<rparr> else dup)
      in dup)"

definition WithAttr :: "(Attr \<Rightarrow> Attr \<Rightarrow> Attr) \<Rightarrow> ColorPair \<Rightarrow> Attr \<Rightarrow> ColorPair" where
  "WithAttr Attr_Merge p a =
     (let dup = p;
          dup = dup\<lparr>attr := Attr_Merge (attr dup) a\<rparr>
      in dup)"

definition MergeAttr :: "(Attr \<Rightarrow> Attr \<Rightarrow> Attr) \<Rightarrow> ColorPair \<Rightarrow> ColorPair \<Rightarrow> ColorPair" where
  "MergeAttr Attr_Merge p other = WithAttr Attr_Merge p (attr other)"

definition Merge :: "(Attr \<Rightarrow> Attr \<Rightarrow> Attr) \<Rightarrow> ColorPair \<Rightarrow> ColorPair \<Rightarrow> ColorPair" where
  "Merge Attr_Merge p other = merge Attr_Merge p other colUndefined"

definition MergeNonDefault :: "(Attr \<Rightarrow> Attr \<Rightarrow> Attr) \<Rightarrow> ColorPair \<Rightarrow> ColorPair \<Rightarrow> ColorPair" where
  "MergeNonDefault Attr_Merge p other = merge Attr_Merge p other colDefault"

section \<open>Themes and the palette\<close>

text \<open>
  \<^verbatim>\<open>ColorTheme\<close>, the theme that \<^verbatim>\<open>EmptyTheme\<close> returns and the three base themes that
  \<^verbatim>\<open>init\<close> sets up. The themes are values here; the source hands out pointers to them.
\<close>

record ColorTheme =
  Colored :: bool
  Input :: ColorAttr
  Disabled :: ColorAttr
  Fg :: ColorAttr
  Bg :: ColorAttr
  SelectedFg :: ColorAttr
  SelectedBg :: ColorAttr
  SelectedMatch :: ColorAttr
  PreviewFg :: ColorAttr
  PreviewBg :: ColorAttr
  DarkBg :: ColorAttr
  Gutter :: ColorAttr
  Prompt :: ColorAttr
  Match :: ColorAttr
  Current :: ColorAttr
  CurrentMatch :: ColorAttr
  Spinner :: ColorAttr
  Info :: ColorAttr
  Cursor :: ColorAttr
  Marker :: ColorAttr
  Header :: ColorAttr
  Separator :: ColorAttr
  Scrollbar :: ColorAttr
  Border :: ColorAttr
  PreviewBorder :: ColorAttr
  PreviewScrollbar :: ColorAttr
  BorderLabel :: ColorAttr
  PreviewLabel :: ColorAttr

definition EmptyTheme :: "Attr \<Rightarrow> ColorTheme" where
  "EmptyTheme AttrUndefined =
     \<lparr>Colored = True,
      Input = \<lparr>Color = colUndefined, Attr = AttrUndefined, BackgroundColor = colUndefined\<rparr>,
      Disabled = \<lparr>Color = colUndefined, Attr = AttrUndefined, BackgroundColor = colUndefined\<rparr>,
      Fg = \<lparr>Color = colUndefined, Attr = AttrUndefined, BackgroundColor = colUndefined\<rparr>,
      Bg = \<lparr>Color = colUndefined, Attr = AttrUndefined, BackgroundColor = colUndefined\<rparr>,
      SelectedFg = \<lparr>Color = colUndefined, Attr = AttrUndefined, BackgroundColor = colUndefined\<rparr>,
      SelectedBg = \<lparr>Color = colUndefined, Attr = AttrUndefined, BackgroundColor = colUndefined\<rparr>,
      SelectedMatch = \<lparr>Color = colUndefined, Attr = AttrUndefined, BackgroundColor = colUndefined\<rparr>,
      PreviewFg = \<lparr>Color = colUndefined, Attr = AttrUndefined, BackgroundColor = colUndefined\<rparr>,
      PreviewBg = \<lparr>Color = colUndefined, Attr = AttrUndefined, BackgroundColor = colUndefined\<rparr>,
      DarkBg = \<lparr>Color = colUndefined, Attr = AttrUndefined, BackgroundColor = colUndefined\<rparr>,
      Gutter = \<lparr>Color = colUndefined, Attr = AttrUndefined, BackgroundColor = colUndefined\<rparr>,
      Prompt = \<lparr>Color = colUndefined, Attr = AttrUndefined, BackgroundColor = colUndefined\<rparr>,
      Match = \<lparr>Color = colUndefined, Attr = AttrUndefined, BackgroundColor = colUndefined\<rparr>,
      Current = \<lparr>Color = colUndefined, Attr = AttrUndefined, BackgroundColor = colUndefined\<rparr>,
      CurrentMatch = \<lparr>Color = colUndefined, Attr = AttrUndefined, BackgroundColor = colUndefined\<rparr>,
      Spinner = \<lparr>Color = colUndefined, Attr = AttrUndefined, BackgroundColor = colUndefined\<rparr>,
      Info = \<lparr>Color = colUndefined, Attr = AttrUndefined, BackgroundColor = colUndefined\<rparr>,
      Cursor = \<lparr>Color = colUndefined, Attr = AttrUndefined, BackgroundColor = colUndefined\<rparr>,
      Marker = \<lparr>Color = colUndefined, Attr = AttrUndefined, BackgroundColor = colUndefined\<rparr>,
      Header = \<lparr>Color = colUndefined, Attr = AttrUndefined, BackgroundColor = colUndefined\<rparr>,
      Separator = \<lparr>Color = colUndefined, Attr = AttrUndefined, BackgroundColor = colUndefined\<rparr>,
      Scrollbar = \<lparr>Color = colUndefined, Attr = AttrUndefined, BackgroundColor = colUndefined\<rparr>,
      Border = \<lparr>Color = colUndefined, Attr = AttrUndefined, BackgroundColor = colUndefined\<rparr>,
      PreviewBorder = \<lparr>Color = colUndefined, Attr = AttrUndefined, BackgroundColor = colUndefined\<rparr>,
      PreviewScrollbar = \<lparr>Color = colUndefined, Attr = AttrUndefined, BackgroundColor = colUndefined\<rparr>,
      BorderLabel = \<lparr>Color = colUndefined, Attr = AttrUndefined, BackgroundColor = colUndefined\<rparr>,
      PreviewLabel = \<lparr>Color = colUndefined, Attr = AttrUndefined, BackgroundColor = colUndefined\<rparr>\<rparr>"

definition Default16 :: "Attr \<Rightarrow> ColorTheme" where
  "Default16 AttrUndefined =
     \<lparr>Colored = True,
      Input = \<lparr>Color = colDefault, Attr = AttrUndefined, BackgroundColor = colUndefined\<rparr>,
      Disabled = \<lparr>Color = colUndefined, Attr = AttrUndefined, BackgroundColor = colUndefined\<rparr>,
      Fg = \<lparr>Color = colDefault, Attr = AttrUndefined, BackgroundColor = colUndefined\<rparr>,
      Bg = \<lparr>Color = colDefault, Attr = AttrUndefined, BackgroundColor = colUndefined\<rparr>,
      SelectedFg = \<lparr>Color = colUndefined, Attr = AttrUndefined, BackgroundColor = colUndefined\<rparr>,
      SelectedBg = \<lparr>Color = colUndefined, Attr = AttrUndefined, BackgroundColor = colUndefined\<rparr>,
      SelectedMatch = \<lparr>Color = colUndefined, Attr = AttrUndefined, BackgroundColor = colUndefined\<rparr>,
      PreviewFg = \<lparr>Color = colUndefined, Attr = AttrUndefined, BackgroundColor = colUndefined\<rparr>,
      PreviewBg = \<lparr>Color = colUndefined, Attr = AttrUndefined, BackgroundColor = colUndefined\<rparr>,
      DarkBg = \<lparr>Color = colBlack, Attr = AttrUndefined, BackgroundColor = colUndefined\<rparr>,
      Gutter = \<lparr>Color = colUndefined, Attr = AttrUndefined, BackgroundColor = colUndefined\<rparr>,
      Prompt = \<lparr>Color = colBlue, Attr = AttrUndefined, BackgroundColor = colUndefined\<rparr>,
      Match = \<lparr>Color = colGreen, Attr = AttrUndefined, BackgroundColor = colUndefined\<rparr>,
      Current = \<lparr>Color = colYellow, Attr = AttrUndefined, BackgroundColor = colUndefined\<rparr>,
      CurrentMatch = \<lparr>Color = colGreen, Attr = AttrUndefined, BackgroundColor = colUndefined\<rparr>,
      Spinner = \<lparr>Color = colGreen, Attr = AttrUndefined, BackgroundColor = colUndefined\<rparr>,
      Info = \<lparr>Color = colWhite, Attr = AttrUndefined, BackgroundColor = colUndefined\<rparr>,
      Cursor = \<lparr>Color = colRed, Attr = AttrUndefined, BackgroundColor = colUndefined\<rparr>,
      Marker = \<lparr>Color = colMagenta, Attr = AttrUndefined, BackgroundColor = colUndefined\<rparr>,
      Header = \<lparr>Color = colCyan, Attr = AttrUndefined, BackgroundColor = colUndefined\<rparr>,
      Separator = \<lparr>Color = colUndefined, Attr = AttrUndefined, BackgroundColor = colUndefined\<rparr>,
      Scrollbar = \<lparr>Color = colUndefined, Attr = AttrUndefined, BackgroundColor = colUndefined\<rparr>,
      Border = \<lparr>Color = colBlack, Attr = AttrUndefined, BackgroundColor = colUndefined\<rparr>,
      PreviewBorder = \<lparr>Color = colUndefined, Attr = AttrUndefined, BackgroundColor = colUndefined\<rparr>,
      PreviewScrollbar = \<lparr>Color = colUndefined, Attr = AttrUndefined, BackgroundColor = colUndefined\<rparr>,
      BorderLabel = \<lparr>Color = colWhite, Attr = AttrUndefined, BackgroundColor = colUndefined\<rparr>,
      PreviewLabel = \<lparr>Color = colUndefined, Attr = AttrUndefined, BackgroundColor = colUndefined\<rparr>\<rparr>"

definition Dark256 :: "Attr \<Rightarrow> ColorTheme" where
  "Dark256 AttrUndefined =
     \<lparr>Colored = True,
      Input = \<lparr>Color = colDefault, Attr = AttrUndefined, BackgroundColor = colUndefined\<rparr>,
      Disabled = \<lparr>Color = colUndefined, Attr = AttrUndefined, BackgroundColor = colUndefined\<rparr>,
      Fg = \<lparr>Color = colDefault, Attr = AttrUndefined, BackgroundColor = colUndefined\<rparr>,
      Bg = \<lparr>Color = colDefault, Attr = AttrUndefined, BackgroundColor = colUndefined\<rparr>,
      SelectedFg = \<lparr>Color = colUndefined, Attr = AttrUndefined, BackgroundColor = colUndefined\<rparr>,
      SelectedBg = \<lparr>Color = colUndefined, Attr = AttrUndefined, BackgroundColor = colUndefined\<rparr>,
      SelectedMatch = \<lparr>Color = colUndefined, Attr = AttrUndefined, BackgroundColor = colUndefined\<rparr>,
      PreviewFg = \<lparr>Color = colUndefined, Attr = AttrUndefined, BackgroundColor = colUndefined\<rparr>,
      PreviewBg = \<lparr>Color = colUndefined, Attr = AttrUndefined, BackgroundColor = colUndefined\<rparr>,
      DarkBg = \<lparr>Color = 236, Attr = AttrUndefined, BackgroundColor = colUndefined\<rparr>,
      Gutter = \<lparr>Color = colUndefined, Attr = AttrUndefined, BackgroundColor = colUndefined\<rparr>,
      Prompt = \<lparr>Color = 110, Attr = AttrUndefined, BackgroundColor = colUndefined\<rparr>,
      Match = \<lparr>Color = 108, Attr = AttrUndefined, BackgroundColor = colUndefined\<rparr>,
      Current = \<lparr>Color = 254, Attr = AttrUndefined, BackgroundColor = colUndefined\<rparr>,
      CurrentMatch = \<lparr>Color = 151, Attr = AttrUndefined, BackgroundColor = colUndefined\<rparr>,
      Spinner = \<lparr>Color = 148, Attr = AttrUndefined, BackgroundColor = colUndefined\<rparr>,
      Info = \<lparr>Color = 144, Attr = AttrUndefined, BackgroundColor = colUndefined\<rparr>,
      Cursor = \<lparr>Color = 161, Attr = AttrUndefined, BackgroundColor = colUndefined\<rparr>,
      Marker = \<lparr>Color = 168, Attr = AttrUndefined, BackgroundColor = colUndefined\<rparr>,
      Header = \<lparr>Color = 109, Attr = AttrUndefined, BackgroundColor = colUndefined\<rparr>,
      Separator = \<lparr>Color = colUndefined, Attr = AttrUndefined, BackgroundColor = colUndefined\<rparr>,
      Scrollbar = \<lparr>Color = colUndefined, Attr = AttrUndefined, BackgroundColor = colUndefined\<rparr>,
      Border = \<lparr>Color = 59, Attr = AttrUndefined, BackgroundColor = colUndefined\<rparr>,
      PreviewBorder = \<lparr>Color = colUndefined, Attr = AttrUndefined, BackgroundColor = colUndefined\<rparr>,
      PreviewScrollbar = \<lparr>Color = colUndefined, Attr = AttrUndefined, BackgroundColor = colUndefined\<rparr>,
      BorderLabel = \<lparr>Color = 145, Attr = AttrUndefined, BackgroundColor = colUndefined\<rparr>,
      PreviewLabel = \<lparr>Color = colUndefined, Attr = AttrUndefined, BackgroundColor = colUndefined\<rparr>\<rparr>"

definition Light256 :: "Attr \<Rightarrow> ColorTheme" where
  "Light256 AttrUndefined =
     \<lparr>Colored = True,
      Input = \<lparr>Color = colDefault, Attr = AttrUndefined, BackgroundColor = colUndefined\<rparr>,
      Disabled = \<lparr>Color = colUndefined, Attr = AttrUndefined, BackgroundColor = colUndefined\<rparr>,
      Fg = \<lparr>Color = colDefault, Attr = AttrUndefined, BackgroundColor = colUndefined\<rparr>,
      Bg = \<lparr>Color = colDefault, Attr = AttrUndefined, BackgroundColor = colUndefined\<rparr>,
      SelectedFg = \<lparr>Color = colUndefined, Attr = AttrUndefined, BackgroundColor = colUndefined\<rparr>,
      SelectedBg = \<lparr>Color = colUndefined, Attr = AttrUndefined, BackgroundColor = colUndefined\<rparr>,
      SelectedMatch = \<lparr>Color = colUndefined, Attr = AttrUndefined, BackgroundColor = colUndefined\<rparr>,
      PreviewFg = \<lparr>Color = colUndefined, Attr = AttrUndefined, BackgroundColor = colUndefined\<rparr>,
      PreviewBg = \<lparr>Color = colUndefined, Attr = AttrUndefined, BackgroundColor = colUndefined\<rparr>,
      DarkBg = \<lparr>Color = 251, Attr = AttrUndefined, BackgroundColor = colUndefined\<rparr>,
      Gutter = \<lparr>Color = colUndefined, Attr = AttrUndefined, BackgroundColor = colUndefined\<rparr>,
      Prompt = \<lparr>Color = 25, Attr = AttrUndefined, BackgroundColor = colUndefined\<rparr>,
      Match = \<lparr>Color = 66, Attr = AttrUndefined, BackgroundColor = colUndefined\<rparr>,
      Current = \<lparr>Color = 237, Attr = AttrUndefined, BackgroundColor = colUndefined\<rparr>,
      CurrentMatch = \<lparr>Color = 23, Attr = AttrUndefined, BackgroundColor = colUndefined\<rparr>,
      Spinner = \<lparr>Color = 65, Attr = AttrUndefined, BackgroundColor = colUndefined\<rparr>,
      Info = \<lparr>Color = 101, Attr = AttrUndefined, BackgroundColor = colUndefined\<rparr>,
      Cursor = \<lparr>Color = 161, Attr = AttrUndefined, BackgroundColor = colUndefined\<rparr>,
      Marker = \<lparr>Color = 168, Attr = AttrUndefined, BackgroundColor = colUndefined\<rparr>,
      Header = \<lparr>Color = 31, Attr = AttrUndefined, BackgroundColor = colUndefined\<rparr>,
      Separator = \<lparr>Color = colUndefined, Attr = AttrUndefined, BackgroundColor = colUndefined\<rparr>,
      Scrollbar = \<lparr>Color = colUndefined, Attr = AttrUndefined, BackgroundColor = colUndefined\<rparr>,
      Border = \<lparr>Color = 145, Attr = AttrUndefined, BackgroundColor = colUndefined\<rparr>,
      PreviewBorder = \<lparr>Color = colUndefined, Attr = AttrUndefined, BackgroundColor = colUndefined\<rparr>,
      PreviewScrollbar = \<lparr>Color = colUndefined, Attr = AttrUndefined, BackgroundColor = colUndefined\<rparr>,
      BorderLabel = \<lparr>Color = 59, Attr = AttrUndefined, BackgroundColor = colUndefined\<rparr>,
      PreviewLabel = \<lparr>Color = colUndefined, Attr = AttrUndefined, BackgroundColor = colUndefined\<rparr>\<rparr>"

text \<open>
  The closure \<^verbatim>\<open>o\<close> of \<^verbatim>\<open>initTheme\<close>, under the name \<open>o_ColorAttr\<close> since \<open>o\<close> is the
  composition of functions in HOL: \<open>b\<close> laid over \<open>a\<close>, field by field, an undefined field
  of \<open>b\<close> leaving \<open>a\<close>'s.
\<close>

definition o_ColorAttr :: "Attr \<Rightarrow> ColorAttr \<Rightarrow> ColorAttr \<Rightarrow> ColorAttr" where
  "o_ColorAttr AttrUndefined a b =
     (let c = a;
          c = (if Color b \<noteq> colUndefined then c\<lparr>Color := Color b\<rparr> else c);
          c = (if Attr b \<noteq> AttrUndefined then c\<lparr>Attr := Attr b\<rparr> else c);
          c = (if BackgroundColor b \<noteq> colUndefined
               then c\<lparr>BackgroundColor := BackgroundColor b\<rparr> else c)
      in c)"

text \<open>
  The closure \<^verbatim>\<open>pair\<close> of \<^verbatim>\<open>initPalette\<close>; \<open>fg\<close> and \<open>bg\<close> are \<open>f\<close> and \<open>b\<close> here.
\<close>

definition pair :: "Attr \<Rightarrow> ColorAttr \<Rightarrow> ColorAttr \<Rightarrow> ColorPair" where
  "pair Reverse f b =
     (let b = (if Color f = colDefault \<and> 0 <s (Attr f AND Reverse)
               then b\<lparr>Color := colDefault\<rparr> else b);
          b = (if BackgroundColor f \<noteq> colDefault \<and> BackgroundColor f \<noteq> colUndefined
               then b\<lparr>Color := BackgroundColor f\<rparr> else b)
      in \<lparr>fg = Color f, bg = Color b, attr = Attr f\<rparr>)"

text \<open>The package-level palette variables that \<^verbatim>\<open>initPalette\<close> assigns.\<close>

record Palette =
  ColPrompt :: ColorPair
  ColNormal :: ColorPair
  ColInput :: ColorPair
  ColDisabled :: ColorPair
  ColMatch :: ColorPair
  ColCursor :: ColorPair
  ColCursorEmpty :: ColorPair
  ColMarker :: ColorPair
  ColSelected :: ColorPair
  ColSelectedMatch :: ColorPair
  ColCurrent :: ColorPair
  ColCurrentMatch :: ColorPair
  ColCurrentCursor :: ColorPair
  ColCurrentCursorEmpty :: ColorPair
  ColCurrentMarker :: ColorPair
  ColCurrentSelectedEmpty :: ColorPair
  ColSpinner :: ColorPair
  ColInfo :: ColorPair
  ColHeader :: ColorPair
  ColSeparator :: ColorPair
  ColScrollbar :: ColorPair
  ColBorder :: ColorPair
  ColPreview :: ColorPair
  ColPreviewBorder :: ColorPair
  ColBorderLabel :: ColorPair
  ColPreviewLabel :: ColorPair
  ColPreviewScrollbar :: ColorPair
  ColPreviewSpinner :: ColorPair

definition initPalette :: "Attr \<Rightarrow> Attr \<Rightarrow> ColorTheme \<Rightarrow> Palette" where
  "initPalette AttrRegular Reverse theme =
     (let blank = Fg theme;
          blank = blank\<lparr>Attr := AttrRegular\<rparr>
      in \<lparr>ColPrompt = pair Reverse (Prompt theme) (Bg theme),
          ColNormal = pair Reverse (Fg theme) (Bg theme),
          ColInput = pair Reverse (Input theme) (Bg theme),
          ColDisabled = pair Reverse (Disabled theme) (Bg theme),
          ColMatch = pair Reverse (Match theme) (Bg theme),
          ColCursor = pair Reverse (Cursor theme) (Gutter theme),
          ColCursorEmpty = pair Reverse blank (Gutter theme),
          ColMarker = (if Color (SelectedBg theme) \<noteq> Color (Bg theme)
                       then pair Reverse (Marker theme) (SelectedBg theme)
                       else pair Reverse (Marker theme) (Gutter theme)),
          ColSelected = pair Reverse (SelectedFg theme) (SelectedBg theme),
          ColSelectedMatch = pair Reverse (SelectedMatch theme) (SelectedBg theme),
          ColCurrent = pair Reverse (Current theme) (DarkBg theme),
          ColCurrentMatch = pair Reverse (CurrentMatch theme) (DarkBg theme),
          ColCurrentCursor = pair Reverse (Cursor theme) (DarkBg theme),
          ColCurrentCursorEmpty = pair Reverse blank (DarkBg theme),
          ColCurrentMarker = pair Reverse (Marker theme) (DarkBg theme),
          ColCurrentSelectedEmpty = pair Reverse blank (DarkBg theme),
          ColSpinner = pair Reverse (Spinner theme) (Bg theme),
          ColInfo = pair Reverse (Info theme) (Bg theme),
          ColHeader = pair Reverse (Header theme) (Bg theme),
          ColSeparator = pair Reverse (Separator theme) (Bg theme),
          ColScrollbar = pair Reverse (Scrollbar theme) (Bg theme),
          ColBorder = pair Reverse (Border theme) (Bg theme),
          ColPreview = pair Reverse (PreviewFg theme) (PreviewBg theme),
          ColPreviewBorder = pair Reverse (PreviewBorder theme) (PreviewBg theme),
          ColBorderLabel = pair Reverse (BorderLabel theme) (Bg theme),
          ColPreviewLabel = pair Reverse (PreviewLabel theme) (PreviewBg theme),
          ColPreviewScrollbar = pair Reverse (PreviewScrollbar theme) (PreviewBg theme),
          ColPreviewSpinner = pair Reverse (Spinner theme) (PreviewBg theme)\<rparr>)"

text \<open>
  \<^verbatim>\<open>initTheme\<close> writes through the pointer \<^verbatim>\<open>theme\<close> and reads \<^verbatim>\<open>baseTheme\<close>; the model
  takes the two themes as values and returns the resolved theme with the palette that
  \<^verbatim>\<open>initPalette\<close> derives from it. The assignments are kept in the order of the source,
  each reading the theme as the earlier ones left it. The base theme is read slot by
  slot, each slot before the same slot of the theme is written.
\<close>

definition initTheme ::
  "Attr \<Rightarrow> Attr \<Rightarrow> Attr \<Rightarrow> ColorTheme \<Rightarrow> ColorTheme \<Rightarrow> bool \<Rightarrow> ColorTheme \<times> Palette" where
  "initTheme AttrUndefined AttrRegular Reverse theme baseTheme forceBlack =
     (let theme = (if forceBlack
                   then theme\<lparr>Bg := \<lparr>Color = colBlack, Attr = AttrUndefined,
                                       BackgroundColor = colUndefined\<rparr>\<rparr>
                   else theme);
          theme = theme\<lparr>Input := o_ColorAttr AttrUndefined (Input baseTheme) (Input theme)\<rparr>;
          theme = theme\<lparr>Fg := o_ColorAttr AttrUndefined (Fg baseTheme) (Fg theme)\<rparr>;
          theme = theme\<lparr>Bg := o_ColorAttr AttrUndefined (Bg baseTheme) (Bg theme)\<rparr>;
          theme = theme\<lparr>DarkBg := o_ColorAttr AttrUndefined (DarkBg baseTheme) (DarkBg theme)\<rparr>;
          theme = theme\<lparr>Prompt := o_ColorAttr AttrUndefined (Prompt baseTheme) (Prompt theme)\<rparr>;
          theme = theme\<lparr>Match := o_ColorAttr AttrUndefined (Match baseTheme) (Match theme)\<rparr>;
          theme = theme\<lparr>Current := o_ColorAttr AttrUndefined (Current baseTheme) (Current theme)\<rparr>;
          theme = theme\<lparr>CurrentMatch := o_ColorAttr AttrUndefined (CurrentMatch baseTheme) (CurrentMatch theme)\<rparr>;
          theme = theme\<lparr>Spinner := o_ColorAttr AttrUndefined (Spinner baseTheme) (Spinner theme)\<rparr>;
          theme = theme\<lparr>Info := o_ColorAttr AttrUndefined (Info baseTheme) (Info theme)\<rparr>;
          theme = theme\<lparr>Cursor := o_ColorAttr AttrUndefined (Cursor baseTheme) (Cursor theme)\<rparr>;
          theme = theme\<lparr>Marker := o_ColorAttr AttrUndefined (Marker baseTheme) (Marker theme)\<rparr>;
          theme = theme\<lparr>Header := o_ColorAttr AttrUndefined (Header baseTheme) (Header theme)\<rparr>;
          theme = theme\<lparr>Border := o_ColorAttr AttrUndefined (Border baseTheme) (Border theme)\<rparr>;
          theme = theme\<lparr>BorderLabel := o_ColorAttr AttrUndefined (BorderLabel baseTheme) (BorderLabel theme)\<rparr>;
          theme = theme\<lparr>SelectedFg := o_ColorAttr AttrUndefined (Fg theme) (SelectedFg theme)\<rparr>;
          theme = theme\<lparr>SelectedBg := o_ColorAttr AttrUndefined (Bg theme) (SelectedBg theme)\<rparr>;
          theme = theme\<lparr>SelectedMatch := o_ColorAttr AttrUndefined (Match theme) (SelectedMatch theme)\<rparr>;
          theme = theme\<lparr>Disabled := o_ColorAttr AttrUndefined (Input theme) (Disabled theme)\<rparr>;
          theme = theme\<lparr>Gutter := o_ColorAttr AttrUndefined (DarkBg theme) (Gutter theme)\<rparr>;
          theme = theme\<lparr>PreviewFg := o_ColorAttr AttrUndefined (Fg theme) (PreviewFg theme)\<rparr>;
          theme = theme\<lparr>PreviewBg := o_ColorAttr AttrUndefined (Bg theme) (PreviewBg theme)\<rparr>;
          theme = theme\<lparr>PreviewLabel := o_ColorAttr AttrUndefined (BorderLabel theme) (PreviewLabel theme)\<rparr>;
          theme = theme\<lparr>PreviewBorder := o_ColorAttr AttrUndefined (Border theme) (PreviewBorder theme)\<rparr>;
          theme = theme\<lparr>Separator := o_ColorAttr AttrUndefined (Border theme) (Separator theme)\<rparr>;
          theme = theme\<lparr>Scrollbar := o_ColorAttr AttrUndefined (Border theme) (Scrollbar theme)\<rparr>;
          theme = theme\<lparr>PreviewScrollbar :=
                    o_ColorAttr AttrUndefined (PreviewBorder theme) (PreviewScrollbar theme)\<rparr>
      in (theme, initPalette AttrRegular Reverse theme))"

text \<open>The first statement of \<^verbatim>\<open>initTheme\<close> on its own: the theme as \<^verbatim>\<open>forceBlack\<close> leaves it.\<close>

definition forced :: "Attr \<Rightarrow> ColorTheme \<Rightarrow> bool \<Rightarrow> ColorTheme" where
  "forced U theme forceBlack =
     (if forceBlack
      then theme\<lparr>Bg := \<lparr>Color = colBlack, Attr = U, BackgroundColor = colUndefined\<rparr>\<rparr>
      else theme)"

text \<open>The slots of a theme other than \<open>Bg\<close>, \<open>SelectedBg\<close> and \<open>PreviewBg\<close>.\<close>

definition slots_beside_Bg :: "(ColorTheme \<Rightarrow> ColorAttr) list" where
  "slots_beside_Bg =
     [Input, Disabled, Fg, SelectedFg, SelectedMatch, PreviewFg,
      DarkBg, Gutter, Prompt, Match, Current, CurrentMatch,
      Spinner, Info, Cursor, Marker, Header, Separator,
      Scrollbar, Border, PreviewBorder, PreviewScrollbar, BorderLabel, PreviewLabel]"

section \<open>Hexadecimal colour literals\<close>

text \<open>
  \<^verbatim>\<open>strconv.ParseInt(s, 16, 0)\<close> of Go's standard library, as \<^verbatim>\<open>HexToColor\<close> calls it:
  base 16 and bit size 0, which stands for the 64 bits of \<^verbatim>\<open>int\<close>. The result is the
  pair of the value and the error, \<open>None\<close> for \<^verbatim>\<open>nil\<close>; \<^verbatim>\<open>HexToColor\<close> drops the error
  and keeps the value.
\<close>

datatype NumError = ErrSyntax | ErrRange

type_synonym byte = "8 word"

definition lower :: "byte \<Rightarrow> byte" where
  "lower c = c OR (of_char CHR ''x'' - of_char CHR ''X'')"

text \<open>The digit switch of the loop of \<^verbatim>\<open>ParseUint\<close>; \<open>None\<close> is its default branch.\<close>

definition digit :: "byte \<Rightarrow> byte option" where
  "digit c =
     (if of_char CHR ''0'' \<le> c \<and> c \<le> of_char CHR ''9'' then Some (c - of_char CHR ''0'')
      else if of_char CHR ''a'' \<le> lower c \<and> lower c \<le> of_char CHR ''z''
      then Some (lower c - of_char CHR ''a'' + 10)
      else None)"

fun ParseUint_loop :: "64 word \<Rightarrow> byte list \<Rightarrow> 64 word \<times> NumError option" where
  "ParseUint_loop n [] = (n, None)"
| "ParseUint_loop n (c # cs) =
     (case digit c of
        None \<Rightarrow> (0, Some ErrSyntax)
      | Some d \<Rightarrow>
          if d \<ge> 16 then (0, Some ErrSyntax)
          else if n \<ge> (- 1) div 16 + 1 then (- 1, Some ErrRange)
          else
            let n = n * 16;
                n1 = n + ucast d
            in if n1 < n \<or> n1 > - 1 then (- 1, Some ErrRange)
               else ParseUint_loop n1 cs)"

definition ParseUint :: "string \<Rightarrow> 64 word \<times> NumError option" where
  "ParseUint s =
     (if s = [] then (0, Some ErrSyntax)
      else ParseUint_loop 0 (map of_char s))"

definition ParseInt :: "string \<Rightarrow> 64 word \<times> NumError option" where
  "ParseInt s =
     (if s = [] then (0, Some ErrSyntax)
      else
        let neg = (hd s = CHR ''-'');
            s = (if hd s = CHR ''+'' \<or> hd s = CHR ''-'' then tl s else s);
            (un, err) = ParseUint s
        in if err \<noteq> None \<and> err \<noteq> Some ErrRange then (0, err)
           else
             let cutoff = push_bit 63 1
             in if \<not> neg \<and> un \<ge> cutoff then (cutoff - 1, Some ErrRange)
                else if neg \<and> un > cutoff then (- cutoff, Some ErrRange)
                else (if neg then - un else un, None))"

text \<open>
  A slice expression \<^verbatim>\<open>s[lo:hi]\<close> on a string panics unless \<open>lo \<le> hi \<le> len(s)\<close>.
\<close>

datatype Panic = SliceBoundsOutOfRange

definition slice :: "string \<Rightarrow> nat \<Rightarrow> nat \<Rightarrow> Panic + string" where
  "slice s lo hi =
     (if lo \<le> hi \<and> hi \<le> length s then Inr (take (hi - lo) (drop lo s))
      else Inl SliceBoundsOutOfRange)"

text \<open>
  \<^verbatim>\<open>HexToColor\<close>: the sum is computed on \<^verbatim>\<open>int64\<close> and converted to the 32 bits of
  \<^verbatim>\<open>Color\<close>.
\<close>

definition HexToColor :: "string \<Rightarrow> Panic + Color" where
  "HexToColor rrggbb =
     (case slice rrggbb 1 3 of
        Inl e \<Rightarrow> Inl e
      | Inr s1 \<Rightarrow>
          (let r = fst (ParseInt s1)
           in (case slice rrggbb 3 5 of
                 Inl e \<Rightarrow> Inl e
               | Inr s2 \<Rightarrow>
                   (let g = fst (ParseInt s2)
                    in (case slice rrggbb 5 7 of
                          Inl e \<Rightarrow> Inl e
                        | Inr s3 \<Rightarrow>
                            (let b = fst (ParseInt s3)
                             in Inr (ucast (push_bit 24 1 + push_bit 16 r + push_bit 8 g + b))))))))"

text \<open>
  The reading of a hexadecimal digit, as a table: what a well-formed literal
  \<^verbatim>\<open>#RRGGBB\<close> denotes is stated with it.
\<close>

definition hexDigitValue :: "char \<Rightarrow> nat option" where
  "hexDigitValue = map_of
     [(CHR ''0'', 0), (CHR ''1'', 1), (CHR ''2'', 2), (CHR ''3'', 3), (CHR ''4'', 4),
      (CHR ''5'', 5), (CHR ''6'', 6), (CHR ''7'', 7), (CHR ''8'', 8), (CHR ''9'', 9),
      (CHR ''a'', 10), (CHR ''b'', 11), (CHR ''c'', 12), (CHR ''d'', 13), (CHR ''e'', 14),
      (CHR ''f'', 15),
      (CHR ''A'', 10), (CHR ''B'', 11), (CHR ''C'', 12), (CHR ''D'', 13), (CHR ''E'', 14),
      (CHR ''F'', 15)]"

text \<open>
  The pairs of bytes that \<^verbatim>\<open>ParseInt\<close> rejects, stated with the table of digits.
\<close>

definition rejectedPair :: "char \<Rightarrow> char \<Rightarrow> bool" where
  "rejectedPair c1 c2 \<longleftrightarrow>
     hexDigitValue c2 = None \<or>
     (hexDigitValue c1 = None \<and> c1 \<noteq> CHR ''+'' \<and> c1 \<noteq> CHR ''-'')"

section \<open>Events and key names\<close>

text \<open>
  \<^verbatim>\<open>type EventType int\<close>, its constants numbered by \<^verbatim>\<open>iota\<close> in the order of the
  \<^verbatim>\<open>const\<close> block. \<open>EventType_names\<close> is that block, name by name; a constant is the
  position of its name.
\<close>

type_synonym EventType = int

definition EventType_names :: "string list" where
  "EventType_names =
    [''Rune'', ''CtrlA'', ''CtrlB'', ''CtrlC'', ''CtrlD'', ''CtrlE'', ''CtrlF'', ''CtrlG'',
     ''CtrlH'', ''Tab'', ''CtrlJ'', ''CtrlK'', ''CtrlL'', ''CtrlM'', ''CtrlN'', ''CtrlO'',
     ''CtrlP'', ''CtrlQ'', ''CtrlR'', ''CtrlS'', ''CtrlT'', ''CtrlU'', ''CtrlV'',
     ''CtrlW'', ''CtrlX'', ''CtrlY'', ''CtrlZ'', ''Esc'', ''CtrlSpace'', ''CtrlDelete'',
     ''CtrlBackSlash'', ''CtrlRightBracket'', ''CtrlCaret'', ''CtrlSlash'', ''ShiftTab'',
     ''Backspace'', ''Delete'', ''PageUp'', ''PageDown'', ''Up'', ''Down'', ''Left'',
     ''Right'', ''Home'', ''End'', ''Insert'', ''ShiftUp'', ''ShiftDown'', ''ShiftLeft'',
     ''ShiftRight'', ''ShiftDelete'', ''F1'', ''F2'', ''F3'', ''F4'', ''F5'', ''F6'',
     ''F7'', ''F8'', ''F9'', ''F10'', ''F11'', ''F12'', ''AltBackspace'', ''AltUp'',
     ''AltDown'', ''AltLeft'', ''AltRight'', ''AltShiftUp'', ''AltShiftDown'',
     ''AltShiftLeft'', ''AltShiftRight'', ''Alt'', ''CtrlAlt'', ''Invalid'', ''Fatal'',
     ''Mouse'', ''DoubleClick'', ''LeftClick'', ''RightClick'', ''SLeftClick'',
     ''SRightClick'', ''ScrollUp'', ''ScrollDown'', ''SScrollUp'', ''SScrollDown'',
     ''PreviewScrollUp'', ''PreviewScrollDown'', ''Resize'', ''Change'', ''BackwardEOF'',
     ''Start'', ''Load'', ''Focus'', ''One'', ''Zero'', ''Result'', ''Jump'',
     ''JumpCancel'', ''ClickHeader'']"
definition Rune :: EventType where "Rune = 0"
definition CtrlA :: EventType where "CtrlA = 1"
definition CtrlBackSlash :: EventType where "CtrlBackSlash = 30"
definition CtrlRightBracket :: EventType where "CtrlRightBracket = 31"
definition CtrlCaret :: EventType where "CtrlCaret = 32"
definition CtrlSlash :: EventType where "CtrlSlash = 33"
definition PageUp :: EventType where "PageUp = 37"
definition Alt :: EventType where "Alt = 72"
definition CtrlAlt :: EventType where "CtrlAlt = 73"
definition Invalid :: EventType where "Invalid = 74"
definition Resize :: EventType where "Resize = 88"
definition ClickHeader :: EventType where "ClickHeader = 99"

type_synonym rune = "32 word"

record MouseEvent =
  Y :: int
  X :: int
  S :: int
  Left :: bool
  Down :: bool
  Double :: bool
  Mod :: bool

text \<open>
  \<^verbatim>\<open>Event\<close>; the pointer \<^verbatim>\<open>MouseEvent\<close> is an option, \<open>None\<close> for \<^verbatim>\<open>nil\<close>. The field
  \<^verbatim>\<open>Char\<close> is \<open>Char'\<close>, \<open>Char\<close> being the constructor of HOL's characters.
\<close>

record Event =
  Type :: EventType
  Char' :: rune
  MouseEvent :: "MouseEvent option"

definition AsEvent :: "EventType \<Rightarrow> Event" where
  "AsEvent t = \<lparr>Type = t, Char' = 0, MouseEvent = None\<rparr>"

definition Comparable :: "Event \<Rightarrow> Event" where
  "Comparable e = \<lparr>Type = Type e, Char' = Char' e, MouseEvent = None\<rparr>"

definition Key :: "rune \<Rightarrow> Event" where
  "Key r = \<lparr>Type = Rune, Char' = r, MouseEvent = None\<rparr>"

definition AltKey :: "rune \<Rightarrow> Event" where
  "AltKey r = \<lparr>Type = Alt, Char' = r, MouseEvent = None\<rparr>"

definition CtrlAltKey :: "rune \<Rightarrow> Event" where
  "CtrlAltKey r = \<lparr>Type = CtrlAlt, Char' = r, MouseEvent = None\<rparr>"

text \<open>
  The conversion \<^verbatim>\<open>string(r)\<close> of a rune in Go: the UTF-8 encoding of the code point,
  and that of U+FFFD for a value that is no code point (beyond U+10FFFF, negative, or a
  surrogate). The comparisons are those of \<^verbatim>\<open>uint32(r)\<close>.
\<close>

definition byte_char :: "32 word \<Rightarrow> char" where
  "byte_char w = char_of (unat w)"

definition string_of_rune :: "rune \<Rightarrow> string" where
  "string_of_rune r =
     (if r \<le> 0x7F then [byte_char r]
      else if r \<le> 0x7FF
      then [byte_char (0xC0 OR drop_bit 6 r), byte_char (0x80 OR (r AND 0x3F))]
      else
        let r = (if r > 0x10FFFF \<or> (0xD800 \<le> r \<and> r \<le> 0xDFFF) then 0xFFFD else r)
        in if r \<le> 0xFFFF
           then [byte_char (0xE0 OR drop_bit 12 r),
                 byte_char (0x80 OR (drop_bit 6 r AND 0x3F)),
                 byte_char (0x80 OR (r AND 0x3F))]
           else [byte_char (0xF0 OR drop_bit 18 r),
                 byte_char (0x80 OR (drop_bit 12 r AND 0x3F)),
                 byte_char (0x80 OR (drop_bit 6 r AND 0x3F)),
                 byte_char (0x80 OR (r AND 0x3F))])"

text \<open>
  \<^verbatim>\<open>Event.KeyName\<close>. The method \<^verbatim>\<open>EventType.String\<close>, which the \<^verbatim>\<open>stringer\<close> tool
  generates, and \<^verbatim>\<open>util.ToKebabCase\<close> are not part of tui.go: \<open>KeyName\<close> takes both as
  arguments.
\<close>

definition KeyName :: "(string \<Rightarrow> string) \<Rightarrow> (EventType \<Rightarrow> string) \<Rightarrow> Event \<Rightarrow> string" where
  "KeyName ToKebabCase String e =
     (if Type e \<ge> Invalid then []
      else if Type e = Rune then string_of_rune (Char' e)
      else if Type e = Alt then ''alt-'' @ string_of_rune (Char' e)
      else if Type e = CtrlAlt then ''ctrl-alt-'' @ string_of_rune (Char' e)
      else if Type e = CtrlBackSlash then ''ctrl-'' @ [CHR 0x5C]
      else if Type e = CtrlRightBracket then ''ctrl-]''
      else if Type e = CtrlCaret then ''ctrl-^''
      else if Type e = CtrlSlash then ''ctrl-/''
      else ToKebabCase (String (Type e)))"

text \<open>
  Modelled from the spec: the file that \<^verbatim>\<open>stringer -type=EventType\<close> generates is not
  under src/. The spec calls the result the symbolic name of the kind: the name of the
  constant, and for a value that is no constant \<^verbatim>\<open>EventType(n)\<close> with \<open>n\<close> in decimal.
\<close>

function FormatNat :: "nat \<Rightarrow> string" where
  "FormatNat n =
     (if n < 10 then [char_of (48 + n)]
      else FormatNat (n div 10) @ [char_of (48 + n mod 10)])"
  by pat_completeness auto
termination
  by (relation "measure id") auto

definition FormatInt :: "int \<Rightarrow> string" where
  "FormatInt i = (if i < 0 then CHR ''-'' # FormatNat (nat (- i)) else FormatNat (nat i))"

definition EventType_String :: "EventType \<Rightarrow> string" where
  "EventType_String i =
     (if i < 0 \<or> i \<ge> int (length EventType_names)
      then ''EventType('' @ FormatInt i @ '')''
      else EventType_names ! nat i)"

text \<open>
  Modelled from the spec: \<^verbatim>\<open>util.ToKebabCase\<close> is not under src/. The spec calls it the
  kebab-case transform of the symbolic name: a hyphen goes before every upper-case
  letter but a leading one, and the letters are lower-cased.
\<close>

definition isUpper :: "char \<Rightarrow> bool" where
  "isUpper c \<longleftrightarrow> (65::nat) \<le> of_char c \<and> of_char c \<le> (90::nat)"

definition toLower :: "char \<Rightarrow> char" where
  "toLower c = (if isUpper c then char_of (of_char c + (32::nat)) else c)"

fun kebab :: "bool \<Rightarrow> string \<Rightarrow> string" where
  "kebab first [] = []"
| "kebab first (c # cs) =
     (if \<not> first \<and> isUpper c then CHR ''-'' # toLower c # kebab False cs
      else toLower c # kebab False cs)"

definition ToKebabCase :: "string \<Rightarrow> string" where
  "ToKebabCase s = kebab True s"

section \<open>Properties of the merge algebra\<close>

lemma merge_fields:
  "fg (merge M p other except) = (if fg other = except then fg p else fg other)"
  "bg (merge M p other except) = (if bg other = except then bg p else bg other)"
  "attr (merge M p other except) = M (attr p) (attr other)"
  by (simp_all add: merge_def Let_def)

lemma sentinels_distinct: "colDefault \<noteq> colUndefined"
  by (simp add: colDefault_def colUndefined_def)

text \<open>
  C1. \<open>Merge a b\<close> is \<open>a\<close> with \<open>fg\<close> replaced by \<open>b\<close>'s unless that is \<open>colUndefined\<close>,
  likewise \<open>bg\<close>, and with \<open>attr\<close> the result of \<^verbatim>\<open>Attr.Merge\<close> on the two attributes;
  when \<^verbatim>\<open>Attr.Merge\<close> treats the undefined attribute as a no-op, every field of \<open>a\<close>
  whose counterpart in \<open>b\<close> is undefined is left as it was.
\<close>

theorem Merge_undefined_keeps:
  "fg (Merge M a b) = (if fg b = colUndefined then fg a else fg b) \<and>
   bg (Merge M a b) = (if bg b = colUndefined then bg a else bg b) \<and>
   attr (Merge M a b) = M (attr a) (attr b) \<and>
   ((\<forall>x. M x AttrUndefined = x) \<and> attr b = AttrUndefined \<longrightarrow> attr (Merge M a b) = attr a) \<and>
   ((\<forall>x. M x AttrUndefined = x) \<and> fg b = colUndefined \<and> bg b = colUndefined \<and>
      attr b = AttrUndefined \<longrightarrow> Merge M a b = a)"
  by (simp add: Merge_def merge_fields merge_def Let_def)

theorem Merge_undefined_keeps_witness:
  "Merge (OR) \<lparr>fg = colRed, bg = colDefault, attr = 8\<rparr> \<lparr>fg = colUndefined, bg = colBlue, attr = 0\<rparr>
     = \<lparr>fg = colRed, bg = colBlue, attr = 8\<rparr> \<and>
   Merge (OR) \<lparr>fg = colRed, bg = colDefault, attr = 8\<rparr> \<lparr>fg = colUndefined, bg = colUndefined, attr = 0\<rparr>
     = \<lparr>fg = colRed, bg = colDefault, attr = 8\<rparr>"
  using Merge_undefined_keeps [of "(OR)" "\<lparr>fg = colRed, bg = colDefault, attr = 8\<rparr>"
      "\<lparr>fg = colUndefined, bg = colBlue, attr = 0\<rparr>" 0]
    Merge_undefined_keeps [of "(OR)" "\<lparr>fg = colRed, bg = colDefault, attr = 8\<rparr>"
      "\<lparr>fg = colUndefined, bg = colUndefined, attr = 0\<rparr>" 0]
  by (simp add: colUndefined_def colBlue_def colRed_def colDefault_def)

text \<open>
  C2. \<open>MergeNonDefault a b\<close> keeps \<open>a\<close>'s \<open>fg\<close> when \<open>b\<close>'s is \<open>colDefault\<close> and takes
  \<open>b\<close>'s otherwise, likewise \<open>bg\<close>; \<open>colDefault\<close> is not \<open>colUndefined\<close>.
\<close>

theorem MergeNonDefault_default_keeps:
  "fg (MergeNonDefault M a b) = (if fg b = colDefault then fg a else fg b) \<and>
   bg (MergeNonDefault M a b) = (if bg b = colDefault then bg a else bg b) \<and>
   colDefault \<noteq> colUndefined"
  by (simp add: MergeNonDefault_def merge_fields sentinels_distinct)

theorem MergeNonDefault_default_keeps_witness:
  "fg (MergeNonDefault (OR) \<lparr>fg = colRed, bg = colBlue, attr = 8\<rparr>
         \<lparr>fg = colDefault, bg = colGreen, attr = 0\<rparr>) = colRed \<and>
   bg (MergeNonDefault (OR) \<lparr>fg = colRed, bg = colBlue, attr = 8\<rparr>
         \<lparr>fg = colDefault, bg = colGreen, attr = 0\<rparr>) = colGreen"
  using MergeNonDefault_default_keeps [of "(OR)" "\<lparr>fg = colRed, bg = colBlue, attr = 8\<rparr>"
      "\<lparr>fg = colDefault, bg = colGreen, attr = 0\<rparr>"]
  by (simp add: colGreen_def colDefault_def)

text \<open>
  C10. \<open>MergeNonDefault a b\<close> is \<open>a\<close> with each of \<open>fg\<close> and \<open>bg\<close> replaced by \<open>b\<close>'s unless
  \<open>b\<close>'s is \<open>colDefault\<close>, and with the attributes merged: \<open>colDefault\<close> is the only value
  of \<open>b\<close> that leaves \<open>a\<close>'s colour in place. So an undefined \<open>fg\<close> (respectively \<open>bg\<close>) of
  \<open>b\<close> is written into the result, over a colour of \<open>a\<close> that was defined.
\<close>

theorem MergeNonDefault_injects_undefined:
  "MergeNonDefault M a b =
     \<lparr>fg = (if fg b = colDefault then fg a else fg b),
      bg = (if bg b = colDefault then bg a else bg b),
      attr = M (attr a) (attr b)\<rparr> \<and>
   (fg b = colUndefined \<longrightarrow> fg (MergeNonDefault M a b) = colUndefined) \<and>
   (bg b = colUndefined \<longrightarrow> bg (MergeNonDefault M a b) = colUndefined) \<and>
   (fg b = colUndefined \<and> fg a \<noteq> colUndefined \<longrightarrow> fg (MergeNonDefault M a b) \<noteq> fg a) \<and>
   (bg b = colUndefined \<and> bg a \<noteq> colUndefined \<longrightarrow> bg (MergeNonDefault M a b) \<noteq> bg a) \<and>
   (fg (MergeNonDefault M a b) = fg a \<longleftrightarrow> fg b = colDefault \<or> fg b = fg a) \<and>
   (bg (MergeNonDefault M a b) = bg a \<longleftrightarrow> bg b = colDefault \<or> bg b = bg a)"
proof -
  have r: "MergeNonDefault M a b =
     \<lparr>fg = (if fg b = colDefault then fg a else fg b),
      bg = (if bg b = colDefault then bg a else bg b),
      attr = M (attr a) (attr b)\<rparr>"
    by (simp add: MergeNonDefault_def merge_def Let_def)
  have f: "fg (MergeNonDefault M a b) = (if fg b = colDefault then fg a else fg b)"
    and g: "bg (MergeNonDefault M a b) = (if bg b = colDefault then bg a else bg b)"
    by (simp_all add: MergeNonDefault_def merge_fields)
  have u: "colUndefined \<noteq> colDefault"
    using sentinels_distinct by simp
  show ?thesis
    using u by (intro conjI impI r) (auto simp: f g)
qed

theorem MergeNonDefault_injects_undefined_witness:
  "MergeNonDefault (OR) \<lparr>fg = colRed, bg = colBlue, attr = 8\<rparr>
     \<lparr>fg = colUndefined, bg = colDefault, attr = 1\<rparr>
     = \<lparr>fg = colUndefined, bg = colBlue, attr = 9\<rparr> \<and>
   fg (MergeNonDefault (OR) \<lparr>fg = colRed, bg = colBlue, attr = 8\<rparr>
         \<lparr>fg = colUndefined, bg = colDefault, attr = 1\<rparr>) \<noteq> colRed"
  using MergeNonDefault_injects_undefined [where M = "(OR)"
      and a = "\<lparr>fg = colRed, bg = colBlue, attr = 8\<rparr>"
      and b = "\<lparr>fg = colUndefined, bg = colDefault, attr = 1\<rparr>"]
  by (simp add: colUndefined_def colDefault_def colRed_def)

lemma and_nonneg_not_sless: "0 \<le>s (r :: 32 word) \<Longrightarrow> \<not> (x AND r <s 0)"
proof -
  assume "0 \<le>s r"
  then have "\<not> bit r 31"
    using bit_last_iff [of r] by (simp add: word_sle_eq)
  then have "\<not> bit (x AND r) 31"
    by (simp add: bit_and_iff)
  then show ?thesis
    using bit_last_iff [of "x AND r"] by (simp add: word_sless_alt)
qed

text \<open>
  C6. \<open>HasBg p\<close> holds exactly when \<open>Reverse\<close> is not set and \<open>bg\<close> is not \<open>colDefault\<close>, or
  \<open>Reverse\<close> is set and \<open>fg\<close> is not \<open>colDefault\<close>. The mask \<open>Reverse\<close> is taken to be
  non-negative, so that "set" is the test \<^verbatim>\<open>p.attr&Reverse > 0\<close> of the source.
\<close>

theorem HasBg_iff:
  assumes "0 \<le>s Reverse"
  shows "HasBg Reverse p \<longleftrightarrow>
     (attr p AND Reverse = 0 \<and> bg p \<noteq> colDefault) \<or>
     (attr p AND Reverse \<noteq> 0 \<and> fg p \<noteq> colDefault)"
  unfolding HasBg_def using and_nonneg_not_sless [OF assms, of "attr p"]
  by (metis signed.not_less_iff_gr_or_eq)

theorem HasBg_iff_witness:
  "HasBg 64 \<lparr>fg = colRed, bg = colDefault, attr = 65\<rparr> \<and>
   \<not> HasBg 64 \<lparr>fg = colRed, bg = colDefault, attr = 1\<rparr>"
proof -
  have "0 \<le>s (64 :: Attr)"
    by (simp add: word_sle_eq)
  then show ?thesis
    using HasBg_iff [of 64 "\<lparr>fg = colRed, bg = colDefault, attr = 65\<rparr>"]
      HasBg_iff [of 64 "\<lparr>fg = colRed, bg = colDefault, attr = 1\<rparr>"]
    by (simp add: colRed_def colDefault_def)
qed

section \<open>Theme resolution\<close>

lemma o_ColorAttr_fields:
  "Color (o_ColorAttr U a b) = (if Color b = colUndefined then Color a else Color b)"
  "Attr (o_ColorAttr U a b) = (if Attr b = U then Attr a else Attr b)"
  "BackgroundColor (o_ColorAttr U a b) =
     (if BackgroundColor b = colUndefined then BackgroundColor a else BackgroundColor b)"
  by (simp_all add: o_ColorAttr_def Let_def)

lemma o_ColorAttr_undefined: "o_ColorAttr U a (NewColorAttr U) = a"
  by (simp add: o_ColorAttr_def NewColorAttr_def Let_def)

lemma initTheme_primitive:
  "Input (fst (initTheme U R V theme base fb)) = o_ColorAttr U (Input base) (Input (forced U theme fb))"
  "Fg (fst (initTheme U R V theme base fb)) = o_ColorAttr U (Fg base) (Fg (forced U theme fb))"
  "Bg (fst (initTheme U R V theme base fb)) = o_ColorAttr U (Bg base) (Bg (forced U theme fb))"
  "DarkBg (fst (initTheme U R V theme base fb)) = o_ColorAttr U (DarkBg base) (DarkBg (forced U theme fb))"
  "Prompt (fst (initTheme U R V theme base fb)) = o_ColorAttr U (Prompt base) (Prompt (forced U theme fb))"
  "Match (fst (initTheme U R V theme base fb)) = o_ColorAttr U (Match base) (Match (forced U theme fb))"
  "Current (fst (initTheme U R V theme base fb)) = o_ColorAttr U (Current base) (Current (forced U theme fb))"
  "CurrentMatch (fst (initTheme U R V theme base fb)) = o_ColorAttr U (CurrentMatch base) (CurrentMatch (forced U theme fb))"
  "Spinner (fst (initTheme U R V theme base fb)) = o_ColorAttr U (Spinner base) (Spinner (forced U theme fb))"
  "Info (fst (initTheme U R V theme base fb)) = o_ColorAttr U (Info base) (Info (forced U theme fb))"
  "Cursor (fst (initTheme U R V theme base fb)) = o_ColorAttr U (Cursor base) (Cursor (forced U theme fb))"
  "Marker (fst (initTheme U R V theme base fb)) = o_ColorAttr U (Marker base) (Marker (forced U theme fb))"
  "Header (fst (initTheme U R V theme base fb)) = o_ColorAttr U (Header base) (Header (forced U theme fb))"
  "Border (fst (initTheme U R V theme base fb)) = o_ColorAttr U (Border base) (Border (forced U theme fb))"
  "BorderLabel (fst (initTheme U R V theme base fb)) = o_ColorAttr U (BorderLabel base) (BorderLabel (forced U theme fb))"
  by (simp_all add: initTheme_def forced_def Let_def)

lemma initTheme_compound:
  "SelectedFg (fst (initTheme U R V theme base fb)) =
     o_ColorAttr U (Fg (fst (initTheme U R V theme base fb))) (SelectedFg theme)"
  "SelectedBg (fst (initTheme U R V theme base fb)) =
     o_ColorAttr U (Bg (fst (initTheme U R V theme base fb))) (SelectedBg theme)"
  "SelectedMatch (fst (initTheme U R V theme base fb)) =
     o_ColorAttr U (Match (fst (initTheme U R V theme base fb))) (SelectedMatch theme)"
  "Disabled (fst (initTheme U R V theme base fb)) =
     o_ColorAttr U (Input (fst (initTheme U R V theme base fb))) (Disabled theme)"
  "Gutter (fst (initTheme U R V theme base fb)) =
     o_ColorAttr U (DarkBg (fst (initTheme U R V theme base fb))) (Gutter theme)"
  "PreviewFg (fst (initTheme U R V theme base fb)) =
     o_ColorAttr U (Fg (fst (initTheme U R V theme base fb))) (PreviewFg theme)"
  "PreviewBg (fst (initTheme U R V theme base fb)) =
     o_ColorAttr U (Bg (fst (initTheme U R V theme base fb))) (PreviewBg theme)"
  "PreviewLabel (fst (initTheme U R V theme base fb)) =
     o_ColorAttr U (BorderLabel (fst (initTheme U R V theme base fb))) (PreviewLabel theme)"
  "PreviewBorder (fst (initTheme U R V theme base fb)) =
     o_ColorAttr U (Border (fst (initTheme U R V theme base fb))) (PreviewBorder theme)"
  "Separator (fst (initTheme U R V theme base fb)) =
     o_ColorAttr U (Border (fst (initTheme U R V theme base fb))) (Separator theme)"
  "Scrollbar (fst (initTheme U R V theme base fb)) =
     o_ColorAttr U (Border (fst (initTheme U R V theme base fb))) (Scrollbar theme)"
  "PreviewScrollbar (fst (initTheme U R V theme base fb)) =
     o_ColorAttr U (PreviewBorder (fst (initTheme U R V theme base fb))) (PreviewScrollbar theme)"
  by (simp_all add: initTheme_def Let_def)

lemma initTheme_Colored:
  "Colored (fst (initTheme U R V theme base fb)) = Colored theme"
  by (simp add: initTheme_def Let_def)

lemma forced_other:
  "Input (forced U theme fb) = Input theme"
  "Disabled (forced U theme fb) = Disabled theme"
  "Fg (forced U theme fb) = Fg theme"
  "SelectedFg (forced U theme fb) = SelectedFg theme"
  "SelectedMatch (forced U theme fb) = SelectedMatch theme"
  "PreviewFg (forced U theme fb) = PreviewFg theme"
  "DarkBg (forced U theme fb) = DarkBg theme"
  "Gutter (forced U theme fb) = Gutter theme"
  "Prompt (forced U theme fb) = Prompt theme"
  "Match (forced U theme fb) = Match theme"
  "Current (forced U theme fb) = Current theme"
  "CurrentMatch (forced U theme fb) = CurrentMatch theme"
  "Spinner (forced U theme fb) = Spinner theme"
  "Info (forced U theme fb) = Info theme"
  "Cursor (forced U theme fb) = Cursor theme"
  "Marker (forced U theme fb) = Marker theme"
  "Header (forced U theme fb) = Header theme"
  "Separator (forced U theme fb) = Separator theme"
  "Scrollbar (forced U theme fb) = Scrollbar theme"
  "Border (forced U theme fb) = Border theme"
  "PreviewBorder (forced U theme fb) = PreviewBorder theme"
  "PreviewScrollbar (forced U theme fb) = PreviewScrollbar theme"
  "BorderLabel (forced U theme fb) = BorderLabel theme"
  "PreviewLabel (forced U theme fb) = PreviewLabel theme"
  by (simp_all add: forced_def)

text \<open>
  C3. When the overlay leaves \<open>SelectedFg\<close> undefined, the resolved \<open>SelectedFg\<close> is the
  resolved \<open>Fg\<close>, that is the overlay's \<open>Fg\<close> laid over the base theme's, and carries the
  overlay's \<open>Fg\<close> colour when that is set. Every compound slot is its own overlay value
  laid over the resolved slot it falls back to.
\<close>

theorem initTheme_SelectedFg_tracks_Fg:
  "(SelectedFg overlay = NewColorAttr U \<longrightarrow>
      SelectedFg (fst (initTheme U R V overlay base fb)) = Fg (fst (initTheme U R V overlay base fb)) \<and>
      SelectedFg (fst (initTheme U R V overlay base fb)) = o_ColorAttr U (Fg base) (Fg overlay) \<and>
      (Color (Fg overlay) \<noteq> colUndefined \<longrightarrow>
         Color (SelectedFg (fst (initTheme U R V overlay base fb))) = Color (Fg overlay)) \<and>
      (Color (Fg overlay) \<noteq> colUndefined \<and> Attr (Fg base) = U \<and>
       BackgroundColor (Fg base) = colUndefined \<longrightarrow>
         SelectedFg (fst (initTheme U R V overlay base fb)) = Fg overlay)) \<and>
   (let t = fst (initTheme U R V overlay base fb)
    in SelectedFg t = o_ColorAttr U (Fg t) (SelectedFg overlay) \<and>
       SelectedBg t = o_ColorAttr U (Bg t) (SelectedBg overlay) \<and>
       SelectedMatch t = o_ColorAttr U (Match t) (SelectedMatch overlay) \<and>
       Disabled t = o_ColorAttr U (Input t) (Disabled overlay) \<and>
       Gutter t = o_ColorAttr U (DarkBg t) (Gutter overlay) \<and>
       PreviewFg t = o_ColorAttr U (Fg t) (PreviewFg overlay) \<and>
       PreviewBg t = o_ColorAttr U (Bg t) (PreviewBg overlay) \<and>
       PreviewLabel t = o_ColorAttr U (BorderLabel t) (PreviewLabel overlay) \<and>
       PreviewBorder t = o_ColorAttr U (Border t) (PreviewBorder overlay) \<and>
       Separator t = o_ColorAttr U (Border t) (Separator overlay) \<and>
       Scrollbar t = o_ColorAttr U (Border t) (Scrollbar overlay) \<and>
       PreviewScrollbar t = o_ColorAttr U (PreviewBorder t) (PreviewScrollbar overlay))"
proof -
  have f: "Fg (fst (initTheme U R V overlay base fb)) = o_ColorAttr U (Fg base) (Fg overlay)"
    by (simp add: initTheme_primitive forced_other)
  have s: "SelectedFg overlay = NewColorAttr U \<Longrightarrow>
      SelectedFg (fst (initTheme U R V overlay base fb)) = o_ColorAttr U (Fg base) (Fg overlay)"
    by (simp add: initTheme_compound(1) f o_ColorAttr_undefined)
  have e: "Color (Fg overlay) \<noteq> colUndefined \<Longrightarrow> Attr (Fg base) = U \<Longrightarrow>
      BackgroundColor (Fg base) = colUndefined \<Longrightarrow> o_ColorAttr U (Fg base) (Fg overlay) = Fg overlay"
    by (simp add: o_ColorAttr_def Let_def)
  show ?thesis
    unfolding Let_def
    by (intro conjI impI initTheme_compound) (simp_all add: s f e o_ColorAttr_fields)
qed

theorem initTheme_SelectedFg_tracks_Fg_witness:
  "SelectedFg (fst (initTheme 0 256 64
      ((EmptyTheme 0)\<lparr>Fg := \<lparr>Color = colRed, Attr = 0, BackgroundColor = colUndefined\<rparr>\<rparr>)
      (Default16 0) False))
     = \<lparr>Color = colRed, Attr = 0, BackgroundColor = colUndefined\<rparr> \<and>
   Fg (Default16 0) = \<lparr>Color = colDefault, Attr = 0, BackgroundColor = colUndefined\<rparr>"
proof -
  have h: "SelectedFg ((EmptyTheme 0)\<lparr>Fg := \<lparr>Color = colRed, Attr = 0,
      BackgroundColor = colUndefined\<rparr>\<rparr>) = NewColorAttr 0"
    by (simp add: EmptyTheme_def NewColorAttr_def)
  have b: "Fg (Default16 0) = \<lparr>Color = colDefault, Attr = 0, BackgroundColor = colUndefined\<rparr>"
    by (simp add: Default16_def)
  have "SelectedFg (fst (initTheme 0 256 64
      ((EmptyTheme 0)\<lparr>Fg := \<lparr>Color = colRed, Attr = 0, BackgroundColor = colUndefined\<rparr>\<rparr>)
      (Default16 0) False))
     = o_ColorAttr 0 (Fg (Default16 0))
         (Fg ((EmptyTheme 0)\<lparr>Fg := \<lparr>Color = colRed, Attr = 0, BackgroundColor = colUndefined\<rparr>\<rparr>))"
    using initTheme_SelectedFg_tracks_Fg [of
      "(EmptyTheme 0)\<lparr>Fg := \<lparr>Color = colRed, Attr = 0, BackgroundColor = colUndefined\<rparr>\<rparr>"
      0 256 64 "Default16 0" False] h
    by blast
  then show ?thesis
    by (simp add: b o_ColorAttr_def Let_def colRed_def colUndefined_def)
qed

text \<open>
  C4 as stated fails: with \<^verbatim>\<open>forceBlack\<close> the compound slot \<open>SelectedBg\<close>, which falls back
  to the resolved \<open>Bg\<close>, changes too.
\<close>

theorem initTheme_forceBlack_counterexample:
  "SelectedBg (fst (initTheme 0 256 64 (EmptyTheme 0) (Default16 0) True))
     \<noteq> SelectedBg (fst (initTheme 0 256 64 (EmptyTheme 0) (Default16 0) False))"
  by (simp add: initTheme_compound initTheme_primitive forced_def EmptyTheme_def Default16_def
      o_ColorAttr_def Let_def colBlack_def colDefault_def colUndefined_def)

text \<open>
  C4, amended. With \<^verbatim>\<open>forceBlack\<close> the resolved \<open>Bg\<close> has the colour \<open>colBlack\<close>, whatever
  the overlay and the base theme say; \<^verbatim>\<open>forceBlack\<close> changes the resolved theme in no slot
  other than \<open>Bg\<close> and the two compound slots \<open>SelectedBg\<close> and \<open>PreviewBg\<close> that fall back
  to it.
\<close>

theorem initTheme_forceBlack:
  "Color (Bg (fst (initTheme U R V overlay base True))) = colBlack \<and>
   list_all (\<lambda>slot. slot (fst (initTheme U R V overlay base True))
                     = slot (fst (initTheme U R V overlay base False))) slots_beside_Bg \<and>
   Colored (fst (initTheme U R V overlay base True))
     = Colored (fst (initTheme U R V overlay base False))"
proof (intro conjI)
  show "Color (Bg (fst (initTheme U R V overlay base True))) = colBlack"
    by (simp add: initTheme_primitive forced_def o_ColorAttr_fields colBlack_def colUndefined_def)
next
  have p: "Input (fst (initTheme U R V overlay base fb)) = o_ColorAttr U (Input base) (Input overlay)"
    "Fg (fst (initTheme U R V overlay base fb)) = o_ColorAttr U (Fg base) (Fg overlay)"
    "DarkBg (fst (initTheme U R V overlay base fb)) = o_ColorAttr U (DarkBg base) (DarkBg overlay)"
    "Match (fst (initTheme U R V overlay base fb)) = o_ColorAttr U (Match base) (Match overlay)"
    "Border (fst (initTheme U R V overlay base fb)) = o_ColorAttr U (Border base) (Border overlay)"
    "BorderLabel (fst (initTheme U R V overlay base fb))
       = o_ColorAttr U (BorderLabel base) (BorderLabel overlay)" for fb
    by (simp_all add: initTheme_primitive forced_other)
  show "list_all (\<lambda>slot. slot (fst (initTheme U R V overlay base True))
                     = slot (fst (initTheme U R V overlay base False))) slots_beside_Bg"
    unfolding slots_beside_Bg_def list.pred_inject
    by (intro conjI TrueI) (simp_all add: initTheme_primitive initTheme_compound forced_other p)
next
  show "Colored (fst (initTheme U R V overlay base True))
     = Colored (fst (initTheme U R V overlay base False))"
    by (simp add: initTheme_Colored)
qed

theorem initTheme_forceBlack_witness:
  "Color (Bg (fst (initTheme 0 256 64
      ((EmptyTheme 0)\<lparr>Bg := \<lparr>Color = colRed, Attr = 0, BackgroundColor = colUndefined\<rparr>\<rparr>)
      (Default16 0) True))) = colBlack \<and>
   Prompt (fst (initTheme 0 256 64
      ((EmptyTheme 0)\<lparr>Bg := \<lparr>Color = colRed, Attr = 0, BackgroundColor = colUndefined\<rparr>\<rparr>)
      (Default16 0) True))
   = Prompt (fst (initTheme 0 256 64
      ((EmptyTheme 0)\<lparr>Bg := \<lparr>Color = colRed, Attr = 0, BackgroundColor = colUndefined\<rparr>\<rparr>)
      (Default16 0) False))"
  using initTheme_forceBlack [of 0 256 64
      "(EmptyTheme 0)\<lparr>Bg := \<lparr>Color = colRed, Attr = 0, BackgroundColor = colUndefined\<rparr>\<rparr>"
      "Default16 0"]
  by (simp add: slots_beside_Bg_def)

text \<open>
  C5 as stated fails: a foreground of default colour with \<open>Reverse\<close> and a
  \<open>BackgroundColor\<close> of its own gets that colour as the pair's background.
\<close>

theorem pair_default_reverse_counterexample:
  "Color \<lparr>Color = colDefault, Attr = 64, BackgroundColor = colRed\<rparr> = colDefault \<and>
   0 <s Attr \<lparr>Color = colDefault, Attr = 64, BackgroundColor = colRed\<rparr> AND 64 \<and>
   bg (pair 64 \<lparr>Color = colDefault, Attr = 64, BackgroundColor = colRed\<rparr>
         \<lparr>Color = colBlue, Attr = 0, BackgroundColor = colUndefined\<rparr>) \<noteq> colDefault"
  by (simp add: pair_def Let_def colDefault_def colRed_def colUndefined_def word_sless_alt)

text \<open>
  C5, amended. For a foreground of default colour whose attributes include \<open>Reverse\<close>, the
  pair's background is \<open>colDefault\<close> unless the foreground has a \<open>BackgroundColor\<close> that is
  neither default nor undefined; then it is that colour. The mask \<open>Reverse\<close> is taken to be
  non-negative, so that "includes" is the test \<^verbatim>\<open>fg.Attr&Reverse > 0\<close> of the source.
\<close>

theorem pair_default_reverse:
  assumes "0 \<le>s Reverse" and "Color f = colDefault" and "Attr f AND Reverse \<noteq> 0"
  shows "bg (pair Reverse f b) =
     (if BackgroundColor f = colDefault \<or> BackgroundColor f = colUndefined then colDefault
      else BackgroundColor f)"
proof -
  have "0 <s Attr f AND Reverse"
    using and_nonneg_not_sless [OF assms(1), of "Attr f"] assms(3)
    by (metis signed.not_less_iff_gr_or_eq)
  with assms(2) show ?thesis
    by (simp add: pair_def Let_def)
qed

theorem pair_default_reverse_witness:
  "bg (pair 64 \<lparr>Color = colDefault, Attr = 72, BackgroundColor = colUndefined\<rparr>
         \<lparr>Color = colBlue, Attr = 0, BackgroundColor = colUndefined\<rparr>) = colDefault"
proof -
  have "0 \<le>s (64 :: Attr)" and "(72 :: Attr) AND 64 \<noteq> 0"
    by (simp_all add: word_sle_eq)
  then show ?thesis
    using pair_default_reverse [of 64 "\<lparr>Color = colDefault, Attr = 72, BackgroundColor = colUndefined\<rparr>"
        "\<lparr>Color = colBlue, Attr = 0, BackgroundColor = colUndefined\<rparr>"]
    by simp
qed

section \<open>Parsing of colour literals\<close>

lemma digit_hex:
  "hexDigitValue c = Some n \<Longrightarrow>
     digit (of_char c) = Some (of_nat n) \<and> n < 16 \<and> c \<noteq> CHR ''+'' \<and> c \<noteq> CHR ''-''"
  by (auto simp: hexDigitValue_def digit_def lower_def split: if_splits)

lemma loop_two:
  assumes "n1 < 16" "n2 < 16"
    and "digit w1 = Some (of_nat n1)" "digit w2 = Some (of_nat n2)"
  shows "ParseUint_loop 0 [w1, w2] = (of_nat (16 * n1 + n2), None)"
proof -
  have b1: "\<not> (16::byte) \<le> of_nat n1" and b2: "\<not> (16::byte) \<le> of_nat n2"
    using assms(1,2) by (simp_all add: word_le_nat_alt unat_of_nat)
  have c1: "ucast (of_nat n1 :: byte) = (of_nat n1 :: 64 word)"
    and c2: "ucast (of_nat n2 :: byte) = (of_nat n2 :: 64 word)"
    using assms(1,2) by (simp_all add: unsigned_of_nat take_bit_nat_eq_self)
  have u1: "unat (of_nat n1 :: 64 word) = n1" and u2: "unat (of_nat n2 :: 64 word) = n2"
    using assms(1,2) by (simp_all add: unat_of_nat)
  have small: "\<not> (1152921504606846976::64 word) \<le> of_nat n1"
    using assms(1) by (simp add: word_le_nat_alt u1)
  have m: "unat (of_nat n1 * 16 :: 64 word) = n1 * 16"
    using assms(1) by (simp add: unat_word_ariths u1)
  have nowrap: "\<not> (of_nat n1 * 16 + of_nat n2 :: 64 word) < of_nat n1 * 16"
    using assms(1,2) by (simp add: word_less_nat_alt unat_word_ariths u1 u2)
  show ?thesis
    using b1 b2 small nowrap
    by (simp add: assms(3,4) c1 c2 Let_def mult.commute)
qed

lemma ParseInt_hex_pair:
  assumes "hexDigitValue c1 = Some n1" "hexDigitValue c2 = Some n2"
  shows "ParseInt [c1, c2] = (of_nat (16 * n1 + n2), None)"
proof -
  from assms have d: "digit (of_char c1) = Some (of_nat n1)" "digit (of_char c2) = Some (of_nat n2)"
    and n: "n1 < 16" "n2 < 16" and s: "c1 \<noteq> CHR ''+''" "c1 \<noteq> CHR ''-''"
    by (simp_all add: digit_hex)
  have l: "ParseUint [c1, c2] = (of_nat (16 * n1 + n2), None)"
    using loop_two [OF n d] by (simp add: ParseUint_def)
  have "unat (of_nat (16 * n1 + n2) :: 64 word) = 16 * n1 + n2"
    using n by (subst unat_of_nat) simp
  then have "\<not> (push_bit 63 1 :: 64 word) \<le> of_nat (16 * n1 + n2)"
    using n by (simp add: word_le_nat_alt)
  then show ?thesis
    using s by (simp add: ParseInt_def l Let_def)
qed

lemma pack_or64:
  fixes r g b :: "'a::len word"
  shows "push_bit 24 1 + push_bit 16 (take_bit 8 r) + push_bit 8 (take_bit 8 g) + take_bit 8 b
       = push_bit 24 1 OR push_bit 16 (take_bit 8 r) OR push_bit 8 (take_bit 8 g) OR take_bit 8 b"
proof -
  define h :: "'a word" where "h = push_bit 24 1"
  have hb: "bit h n \<Longrightarrow> n = 24" for n
    unfolding h_def by (simp only: bit_push_bit_iff bit_1_iff) auto
  have 1: "h + push_bit 16 (take_bit 8 r) = h OR push_bit 16 (take_bit 8 r)"
    by (rule disjunctive_add) (auto simp: bit_simps dest: hb)
  have 2: "(h OR push_bit 16 (take_bit 8 r)) + push_bit 8 (take_bit 8 g)
         = (h OR push_bit 16 (take_bit 8 r)) OR push_bit 8 (take_bit 8 g)"
    by (rule disjunctive_add) (auto simp: bit_simps dest: hb)
  have 3: "((h OR push_bit 16 (take_bit 8 r)) OR push_bit 8 (take_bit 8 g)) + take_bit 8 b
         = ((h OR push_bit 16 (take_bit 8 r)) OR push_bit 8 (take_bit 8 g)) OR take_bit 8 b"
    by (rule disjunctive_add) (auto simp: bit_simps dest: hb)
  show ?thesis
    unfolding h_def [symmetric] by (simp only: 1 2 3) (simp only: or.assoc)
qed

lemma pack_or:
  fixes r g b :: nat
  assumes "r < 256" "g < 256" "b < 256"
  shows "(ucast (push_bit 24 1 + push_bit 16 (of_nat r) + push_bit 8 (of_nat g) + of_nat b :: 64 word) :: 32 word)
         = push_bit 24 1 OR push_bit 16 (of_nat r) OR push_bit 8 (of_nat g) OR of_nat b"
proof -
  have t: "(of_nat r :: 'a::len word) = take_bit 8 (of_nat r)" "(of_nat g :: 'a::len word) = take_bit 8 (of_nat g)"
    "(of_nat b :: 'a::len word) = take_bit 8 (of_nat b)"
    using assms by (simp_all add: take_bit_of_nat take_bit_nat_eq_self)
  have "(ucast (push_bit 24 1 + push_bit 16 (of_nat r) + push_bit 8 (of_nat g) + of_nat b :: 64 word) :: 32 word)
      = ucast (push_bit 24 1 OR push_bit 16 (of_nat r) OR push_bit 8 (of_nat g) OR of_nat b :: 64 word)"
    using pack_or64 [of "of_nat r :: 64 word" "of_nat g" "of_nat b"] by (simp only: t [symmetric])
  also have "\<dots> = push_bit 24 1 OR push_bit 16 (of_nat r) OR push_bit 8 (of_nat g) OR of_nat b"
  proof -
    define h :: "64 word" where "h = push_bit 24 1"
    define h' :: "32 word" where "h' = push_bit 24 1"
    have hb: "bit h n \<longleftrightarrow> n = 24" "bit h' n \<longleftrightarrow> n = 24" for n
      unfolding h_def h'_def by (simp_all only: bit_push_bit_iff bit_1_iff) auto
    have nb: "bit r n \<Longrightarrow> n < 8" "bit g n \<Longrightarrow> n < 8" "bit b n \<Longrightarrow> n < 8" for n
      using assms bit_take_bit_iff [of 8 r n] bit_take_bit_iff [of 8 g n] bit_take_bit_iff [of 8 b n]
      by (simp_all add: take_bit_nat_eq_self)
    have "ucast (h OR push_bit 16 (of_nat r) OR push_bit 8 (of_nat g) OR of_nat b)
        = h' OR push_bit 16 (of_nat r) OR push_bit 8 (of_nat g) OR of_nat b"
      by (rule bit_eqI) (auto simp: bit_simps hb dest: nb)
    then show ?thesis
      by (simp only: h_def h'_def)
  qed
  finally show ?thesis .
qed

lemma lower_cases: "lower w = w \<or> lower w = w + 32"
proof -
  have e: "(32 :: byte) = push_bit 5 1"
    by simp
  have b: "bit (push_bit 5 1 :: byte) n \<longleftrightarrow> n = 5" for n
    by (simp only: bit_push_bit_iff bit_1_iff) auto
  show ?thesis
  proof (cases "bit w 5")
    case True
    have "w OR push_bit 5 1 = w"
      by (rule bit_eqI) (auto simp only: bit_or_iff b True)
    then show ?thesis by (simp add: lower_def)
  next
    case False
    have "w + push_bit 5 1 = w OR push_bit 5 1"
      by (rule disjunctive_add) (auto simp only: b False)
    then show ?thesis by (simp add: lower_def)
  qed
qed

lemma digit_range:
  assumes "digit w = Some d" "d < 16"
  shows "(48 \<le> w \<and> w \<le> 57) \<or> (65 \<le> w \<and> w \<le> 70) \<or> (97 \<le> w \<and> w \<le> 102)"
  using assms lower_cases [of w]
  apply (auto simp: digit_def split: if_splits)
  apply unat_arith+
  done

lemma hex_chars:
  assumes "(48 \<le> k \<and> k \<le> 57) \<or> (65 \<le> k \<and> k \<le> 70) \<or> (97 \<le> k \<and> k \<le> (102::nat))"
  shows "hexDigitValue (char_of k) \<noteq> None"
proof -
  from assms have "k \<in> {48, 49, 50, 51, 52, 53, 54, 55, 56, 57, 65, 66, 67, 68, 69, 70, 97, 98, 99, 100, 101, 102}"
    by (simp only: insert_iff empty_iff) arith
  then show ?thesis
    by (auto simp: hexDigitValue_def char_of_eq_iff)
qed

lemma digit_nonhex:
  assumes "hexDigitValue c = None"
  shows "digit (of_char c) = None \<or> (\<exists>d. digit (of_char c) = Some d \<and> 16 \<le> d)"
proof (rule ccontr)
  assume "\<not> ?thesis"
  then obtain d where d: "digit (of_char c) = Some d" "d < 16"
    by (cases "digit (of_char c)") (auto simp: not_le)
  have "unat (of_nat (of_char c) :: byte) = of_char c"
    by (simp add: unat_of_nat)
  then have u: "unat (of_char c :: byte) = of_char c"
    by (simp only: of_nat_of_char)
  from digit_range [OF d]
  have "(48 \<le> (of_char c :: nat) \<and> (of_char c :: nat) \<le> 57) \<or> (65 \<le> (of_char c :: nat) \<and> (of_char c :: nat) \<le> 70) \<or> (97 \<le> (of_char c :: nat) \<and> (of_char c :: nat) \<le> 102)"
    by (simp add: word_le_nat_alt u)
  from hex_chars [OF this] assms show False
    by simp
qed

lemma loop_reject:
  "digit w = None \<or> (\<exists>d. digit w = Some d \<and> 16 \<le> d) \<Longrightarrow>
     ParseUint_loop n (w # ws) = (0, Some ErrSyntax)"
  by auto

lemma loop_first:
  assumes "k < 16" "digit w = Some (of_nat k)"
  shows "ParseUint_loop 0 (w # ws) = ParseUint_loop (of_nat k) ws"
proof -
  have "\<not> (16::byte) \<le> of_nat k"
    using assms(1) by (simp add: word_le_nat_alt unat_of_nat)
  moreover have "ucast (of_nat k :: byte) = (of_nat k :: 64 word)"
    using assms(1) by (simp add: unsigned_of_nat take_bit_nat_eq_self)
  ultimately show ?thesis
    by (simp add: assms(2) Let_def)
qed

lemma ParseUint_single:
  assumes "hexDigitValue c = Some k"
  shows "ParseUint [c] = (of_nat k, None)"
  using loop_first [of k "of_char c" "[]"] digit_hex [OF assms]
  by (simp add: ParseUint_def)

lemma ParseInt_signed:
  assumes "hexDigitValue c = Some k"
  shows "ParseInt [CHR ''+'', c] = (of_nat k, None)"
    and "ParseInt [CHR ''-'', c] = (- of_nat k, None)"
proof -
  have k: "k < 16"
    using digit_hex [OF assms] by simp
  then have "unat (of_nat k :: 64 word) = k"
    by (simp add: unat_of_nat)
  then have "\<not> (push_bit 63 1 :: 64 word) \<le> of_nat k" "\<not> (push_bit 63 1 :: 64 word) < of_nat k"
    using k by (simp_all add: word_le_nat_alt word_less_nat_alt)
  then show "ParseInt [CHR ''+'', c] = (of_nat k, None)"
    and "ParseInt [CHR ''-'', c] = (- of_nat k, None)"
    by (simp_all add: ParseInt_def ParseUint_single [OF assms] Let_def)
qed

lemma ParseUint_rejects:
  assumes "hexDigitValue c2 = None \<or> hexDigitValue c1 = None"
  shows "ParseUint [c1, c2] = (0, Some ErrSyntax)"
proof (cases "hexDigitValue c1")
  case None
  then show ?thesis
    using loop_reject [OF digit_nonhex [OF None]] by (simp add: ParseUint_def)
next
  case (Some k)
  with assms have n: "hexDigitValue c2 = None"
    by simp
  have "ParseUint_loop 0 [of_char c1, of_char c2] = ParseUint_loop (of_nat k) [of_char c2]"
    using loop_first [of k "of_char c1"] digit_hex [OF Some] by simp
  then show ?thesis
    using loop_reject [OF digit_nonhex [OF n]] by (simp add: ParseUint_def)
qed

lemma ParseInt_rejects:
  assumes "rejectedPair c1 c2"
  shows "ParseInt [c1, c2] = (0, Some ErrSyntax)"
proof (cases "c1 = CHR ''+'' \<or> c1 = CHR ''-''")
  case True
  with assms have n: "hexDigitValue c2 = None"
    by (auto simp: rejectedPair_def)
  have "ParseUint [c2] = (0, Some ErrSyntax)"
    using loop_reject [OF digit_nonhex [OF n]] by (simp add: ParseUint_def)
  with True show ?thesis
    by (auto simp: ParseInt_def Let_def)
next
  case False
  with assms have "hexDigitValue c2 = None \<or> hexDigitValue c1 = None"
    by (auto simp: rejectedPair_def)
  from ParseUint_rejects [OF this] False show ?thesis
    by (simp add: ParseInt_def Let_def)
qed

lemma ParseInt_accepts:
  assumes "\<not> rejectedPair c1 c2"
  shows "snd (ParseInt [c1, c2]) = None"
proof -
  from assms obtain n2 where n2: "hexDigitValue c2 = Some n2"
    by (auto simp: rejectedPair_def)
  from assms consider n1 where "hexDigitValue c1 = Some n1" | "c1 = CHR ''+''" | "c1 = CHR ''-''"
    by (auto simp: rejectedPair_def)
  then show ?thesis
  proof cases
    case 1
    then show ?thesis by (simp add: ParseInt_hex_pair [OF 1 n2])
  next
    case 2
    then show ?thesis by (simp add: ParseInt_signed(1) [OF n2])
  next
    case 3
    then show ?thesis by (simp add: ParseInt_signed(2) [OF n2])
  qed
qed

lemma slice_pair:
  "Suc (Suc i) \<le> length s \<Longrightarrow> slice s i (i + 2) = Inr [s ! i, s ! Suc i]"
  by (simp add: slice_def take_Suc_conv_app_nth list_eq_iff_nth_eq nth_Cons' less_Suc_eq numeral_2_eq_2)

lemma HexToColor_long:
  assumes "7 \<le> length s"
  shows "HexToColor s =
     Inr (ucast (push_bit 24 1 + push_bit 16 (fst (ParseInt [s ! 1, s ! 2]))
            + push_bit 8 (fst (ParseInt [s ! 3, s ! 4])) + fst (ParseInt [s ! 5, s ! 6])))"
proof -
  have "slice s 1 3 = Inr [s ! 1, s ! 2]" "slice s 3 5 = Inr [s ! 3, s ! 4]"
    "slice s 5 7 = Inr [s ! 5, s ! 6]"
    using assms slice_pair [of 1 s] slice_pair [of 3 s] slice_pair [of 5 s]
    by (simp_all add: eval_nat_numeral)
  then show ?thesis
    by (simp add: HexToColor_def Let_def)
qed

lemma HexToColor_short:
  "length s < 7 \<Longrightarrow> HexToColor s = Inl SliceBoundsOutOfRange"
  by (simp add: HexToColor_def slice_def Let_def split: sum.splits)

text \<open>
  C8. \<^verbatim>\<open>#000000\<close> gives \<open>1<<24\<close>, \<^verbatim>\<open>#ffffff\<close> gives \<open>1<<24 + 0xffffff\<close>, and every literal
  of \<^verbatim>\<open>#\<close> and six hexadecimal digits gives \<open>1<<24 | R<<16 | G<<8 | B\<close>, where \<open>R\<close>, \<open>G\<close>
  and \<open>B\<close> are the numbers that the three pairs of digits denote.
\<close>

theorem HexToColor_packs:
  "HexToColor ''#000000'' = Inr (push_bit 24 1) \<and>
   HexToColor ''#ffffff'' = Inr (push_bit 24 1 + 0xffffff) \<and>
   (hexDigitValue r1 = Some R1 \<and> hexDigitValue r2 = Some R2 \<and>
    hexDigitValue g1 = Some G1 \<and> hexDigitValue g2 = Some G2 \<and>
    hexDigitValue b1 = Some B1 \<and> hexDigitValue b2 = Some B2 \<longrightarrow>
    HexToColor [CHR ''#'', r1, r2, g1, g2, b1, b2] =
      Inr (push_bit 24 1 OR push_bit 16 (of_nat (16 * R1 + R2))
             OR push_bit 8 (of_nat (16 * G1 + G2)) OR of_nat (16 * B1 + B2)))"
proof (intro conjI impI)
  show "HexToColor ''#000000'' = Inr (push_bit 24 1)"
    by (simp add: HexToColor_def slice_def ParseInt_def ParseUint_def digit_def lower_def Let_def)
  show "HexToColor ''#ffffff'' = Inr (push_bit 24 1 + 0xffffff)"
    by (simp add: HexToColor_def slice_def ParseInt_def ParseUint_def digit_def lower_def Let_def)
next
  assume h: "hexDigitValue r1 = Some R1 \<and> hexDigitValue r2 = Some R2 \<and>
    hexDigitValue g1 = Some G1 \<and> hexDigitValue g2 = Some G2 \<and>
    hexDigitValue b1 = Some B1 \<and> hexDigitValue b2 = Some B2"
  then have p: "ParseInt [r1, r2] = (of_nat (16 * R1 + R2), None)"
    "ParseInt [g1, g2] = (of_nat (16 * G1 + G2), None)"
    "ParseInt [b1, b2] = (of_nat (16 * B1 + B2), None)"
    by (simp_all add: ParseInt_hex_pair)
  from h have "R1 < 16" "R2 < 16" "G1 < 16" "G2 < 16" "B1 < 16" "B2 < 16"
    using digit_hex by blast+
  then have b: "16 * R1 + R2 < 256" "16 * G1 + G2 < 256" "16 * B1 + B2 < 256"
    by simp_all
  have "HexToColor [CHR ''#'', r1, r2, g1, g2, b1, b2] =
     Inr (ucast (push_bit 24 1 + push_bit 16 (of_nat (16 * R1 + R2))
            + push_bit 8 (of_nat (16 * G1 + G2)) + of_nat (16 * B1 + B2) :: 64 word))"
    using HexToColor_long [of "[CHR ''#'', r1, r2, g1, g2, b1, b2]"]
    by (simp add: p eval_nat_numeral)
  then show "HexToColor [CHR ''#'', r1, r2, g1, g2, b1, b2] =
      Inr (push_bit 24 1 OR push_bit 16 (of_nat (16 * R1 + R2))
             OR push_bit 8 (of_nat (16 * G1 + G2)) OR of_nat (16 * B1 + B2))"
    by (simp only: pack_or [OF b])
qed

theorem HexToColor_packs_witness:
  "HexToColor ''#1aF09c'' = Inr 0x11AF09C"
  using HexToColor_packs [of "CHR ''1''" 1 "CHR ''a''" 10 "CHR ''F''" 15 "CHR ''0''" 0
      "CHR ''9''" 9 "CHR ''c''" 12]
  by (simp add: hexDigitValue_def)

text \<open>
  C9 as stated fails: \<^verbatim>\<open>#ff00zz\<close> is malformed and is not turned into \<open>1<<24\<close>, only its
  last component is zero; and an input shorter than seven bytes makes a slice expression
  panic.
\<close>

theorem HexToColor_malformed_counterexample:
  "hexDigitValue CHR ''z'' = None \<and>
   HexToColor ''#ff00zz'' = Inr (push_bit 24 1 + 0xff0000) \<and>
   HexToColor ''#ff00zz'' \<noteq> Inr (push_bit 24 1) \<and>
   HexToColor ''#zzzz'' = Inl SliceBoundsOutOfRange"
  by (simp add: hexDigitValue_def HexToColor_def slice_def ParseInt_def ParseUint_def
      digit_def lower_def Let_def)

text \<open>
  C9, amended. For an input of at least seven bytes \<^verbatim>\<open>HexToColor\<close> signals no failure and
  returns \<open>(1<<24) + (r<<16) + (g<<8) + b\<close>, where \<open>r\<close>, \<open>g\<close> and \<open>b\<close> are the values that
  \<^verbatim>\<open>ParseInt\<close> yields for the bytes 1-2, 3-4 and 5-6. \<^verbatim>\<open>ParseInt\<close> rejects a pair, with
  the value zero, exactly when its second byte is no hexadecimal digit or its first byte
  is neither a hexadecimal digit nor a sign; when all three pairs are rejected the result
  is \<open>1<<24\<close>.
\<close>

theorem HexToColor_malformed:
  "(7 \<le> length s \<longrightarrow>
      HexToColor s =
        Inr (ucast (push_bit 24 1 + push_bit 16 (fst (ParseInt [s ! 1, s ! 2]))
               + push_bit 8 (fst (ParseInt [s ! 3, s ! 4])) + fst (ParseInt [s ! 5, s ! 6])))) \<and>
   (rejectedPair c1 c2 \<longleftrightarrow> ParseInt [c1, c2] = (0, Some ErrSyntax)) \<and>
   (7 \<le> length s \<and> rejectedPair (s ! 1) (s ! 2) \<and> rejectedPair (s ! 3) (s ! 4) \<and>
      rejectedPair (s ! 5) (s ! 6) \<longrightarrow> HexToColor s = Inr (push_bit 24 1))"
proof (intro conjI impI)
  assume "7 \<le> length s"
  then show "HexToColor s =
        Inr (ucast (push_bit 24 1 + push_bit 16 (fst (ParseInt [s ! 1, s ! 2]))
               + push_bit 8 (fst (ParseInt [s ! 3, s ! 4])) + fst (ParseInt [s ! 5, s ! 6])))"
    by (rule HexToColor_long)
next
  show "rejectedPair c1 c2 \<longleftrightarrow> ParseInt [c1, c2] = (0, Some ErrSyntax)"
    using ParseInt_rejects [of c1 c2] ParseInt_accepts [of c1 c2]
    by (cases "rejectedPair c1 c2") auto
next
  assume "7 \<le> length s \<and> rejectedPair (s ! 1) (s ! 2) \<and> rejectedPair (s ! 3) (s ! 4) \<and>
      rejectedPair (s ! 5) (s ! 6)"
  then show "HexToColor s = Inr (push_bit 24 1)"
    by (simp add: HexToColor_long ParseInt_rejects)
qed

theorem HexToColor_malformed_witness:
  "HexToColor ''#zz 1-_'' = Inr (push_bit 24 1) \<and> ParseInt ''zz'' = (0, Some ErrSyntax)"
  using HexToColor_malformed [of "''#zz 1-_''" "CHR ''z''" "CHR ''z''", THEN conjunct2]
  by (simp add: rejectedPair_def hexDigitValue_def)

section \<open>Key names\<close>

lemma EventType_consts:
  "EventType_names ! nat Rune = ''Rune''"
  "EventType_names ! nat CtrlA = ''CtrlA''"
  "EventType_names ! nat CtrlBackSlash = ''CtrlBackSlash''"
  "EventType_names ! nat CtrlRightBracket = ''CtrlRightBracket''"
  "EventType_names ! nat CtrlCaret = ''CtrlCaret''"
  "EventType_names ! nat CtrlSlash = ''CtrlSlash''"
  "EventType_names ! nat PageUp = ''PageUp''"
  "EventType_names ! nat Alt = ''Alt''"
  "EventType_names ! nat CtrlAlt = ''CtrlAlt''"
  "EventType_names ! nat Invalid = ''Invalid''"
  "EventType_names ! nat Resize = ''Resize''"
  "EventType_names ! nat ClickHeader = ''ClickHeader''"
  "length EventType_names = 100"
  by (simp_all add: EventType_names_def Rune_def CtrlA_def CtrlBackSlash_def
      CtrlRightBracket_def CtrlCaret_def CtrlSlash_def PageUp_def Alt_def CtrlAlt_def
      Invalid_def Resize_def ClickHeader_def)

lemmas EventType_defs =
  Rune_def CtrlA_def CtrlBackSlash_def CtrlRightBracket_def CtrlCaret_def CtrlSlash_def
  PageUp_def Alt_def CtrlAlt_def Invalid_def Resize_def ClickHeader_def

text \<open>
  C7 as stated fails: \<open>Resize\<close> is none of the special-cased kinds, its symbolic name has
  the kebab-case form \<open>resize\<close>, and \<open>KeyName\<close> returns the empty string for it.
\<close>

theorem KeyName_counterexample:
  "KeyName ToKebabCase EventType_String (AsEvent Resize) = [] \<and>
   ToKebabCase (EventType_String (Type (AsEvent Resize))) = ''resize'' \<and>
   KeyName ToKebabCase EventType_String (AsEvent Resize)
     \<noteq> ToKebabCase (EventType_String (Type (AsEvent Resize)))"
  by (simp add: KeyName_def AsEvent_def EventType_defs EventType_String_def
      EventType_names_def ToKebabCase_def isUpper_def toLower_def char_of_eq_iff)

text \<open>
  C7, amended. \<open>KeyName e\<close> is the character of \<open>e\<close> for the kind \<open>Rune\<close>, the character
  after \<open>alt-\<close> and \<open>ctrl-alt-\<close> for \<open>Alt\<close> and \<open>CtrlAlt\<close>, the four fixed strings for the
  four control chords, for every other kind below \<open>Invalid\<close> the kebab-case form of the
  symbolic name, and the empty string for \<open>Invalid\<close> and every kind after it.
\<close>

theorem KeyName_cases:
  "(Type e = Rune \<longrightarrow> KeyName K N e = string_of_rune (Char' e)) \<and>
   (Type e = Alt \<longrightarrow> KeyName K N e = ''alt-'' @ string_of_rune (Char' e)) \<and>
   (Type e = CtrlAlt \<longrightarrow> KeyName K N e = ''ctrl-alt-'' @ string_of_rune (Char' e)) \<and>
   (Type e = CtrlBackSlash \<longrightarrow> KeyName K N e = ''ctrl-'' @ [CHR 0x5C]) \<and>
   (Type e = CtrlRightBracket \<longrightarrow> KeyName K N e = ''ctrl-]'') \<and>
   (Type e = CtrlCaret \<longrightarrow> KeyName K N e = ''ctrl-^'') \<and>
   (Type e = CtrlSlash \<longrightarrow> KeyName K N e = ''ctrl-/'') \<and>
   (Type e < Invalid \<and>
    Type e \<notin> {Rune, Alt, CtrlAlt, CtrlBackSlash, CtrlRightBracket, CtrlCaret, CtrlSlash} \<longrightarrow>
      KeyName K N e = K (N (Type e))) \<and>
   (Invalid \<le> Type e \<longrightarrow> KeyName K N e = [])"
  by (simp add: KeyName_def EventType_defs)

theorem KeyName_cases_witness:
  "KeyName ToKebabCase EventType_String (Key 0x61) = ''a'' \<and>
   KeyName ToKebabCase EventType_String (AltKey 0x61) = ''alt-a'' \<and>
   KeyName ToKebabCase EventType_String (CtrlAltKey 0x61) = ''ctrl-alt-a'' \<and>
   KeyName ToKebabCase EventType_String (AsEvent CtrlBackSlash) = ''ctrl-'' @ [CHR 0x5C] \<and>
   KeyName ToKebabCase EventType_String (AsEvent CtrlRightBracket) = ''ctrl-]'' \<and>
   KeyName ToKebabCase EventType_String (AsEvent CtrlCaret) = ''ctrl-^'' \<and>
   KeyName ToKebabCase EventType_String (AsEvent CtrlSlash) = ''ctrl-/'' \<and>
   KeyName ToKebabCase EventType_String (AsEvent PageUp) = ''page-up'' \<and>
   KeyName ToKebabCase EventType_String (AsEvent ClickHeader) = []"
  using KeyName_cases [of "Key 0x61" ToKebabCase EventType_String]
    KeyName_cases [of "AltKey 0x61" ToKebabCase EventType_String]
    KeyName_cases [of "CtrlAltKey 0x61" ToKebabCase EventType_String]
    KeyName_cases [of "AsEvent CtrlBackSlash" ToKebabCase EventType_String]
    KeyName_cases [of "AsEvent CtrlRightBracket" ToKebabCase EventType_String]
    KeyName_cases [of "AsEvent CtrlCaret" ToKebabCase EventType_String]
    KeyName_cases [of "AsEvent CtrlSlash" ToKebabCase EventType_String]
    KeyName_cases [of "AsEvent PageUp" ToKebabCase EventType_String]
    KeyName_cases [of "AsEvent ClickHeader" ToKebabCase EventType_String]
  by (simp add: Key_def AltKey_def CtrlAltKey_def AsEvent_def EventType_defs
      string_of_rune_def byte_char_def EventType_String_def EventType_names_def
      ToKebabCase_def isUpper_def toLower_def char_of_eq_iff)

end
